theory Spec2Isabelle
  imports Complex_Main "HOL-Library.Sublist" "HOL-Library.Log_Nat" "HOL-Library.Code_Target_Nat"
begin

section \<open>Python strings\<close>

text \<open>
  A Python \<open>str\<close> is a sequence of Unicode code points, so a string is a list of code
  points here, not of bytes: the currency glyph of the replies is one element.
  \<open>str_of\<close> embeds an ASCII literal.
\<close>

type_synonym codepoint = nat
type_synonym pystr = "codepoint list"

definition str_of :: "string \<Rightarrow> pystr" where
  "str_of s = map of_char s"

definition glyph :: codepoint where
  \<comment> \<open>U+23E3, the currency sign of the replies\<close>
  "glyph = 9187"

datatype py_error = IndexError | ValueError | UnboundLocalError | TimestampError

text \<open>\<open>sub in s\<close> for strings.\<close>

fun contains :: "pystr \<Rightarrow> pystr \<Rightarrow> bool" where
  "contains sub [] = (sub = [])"
| "contains sub (c # cs) = (prefix sub (c # cs) \<or> contains sub cs)"

text \<open>
  \<open>s.replace(old, new)\<close>: the occurrences of \<open>old\<close> are replaced from the left, without
  overlap. For an empty \<open>old\<close> Python puts \<open>new\<close> around every character.
\<close>

function replace_from :: "pystr \<Rightarrow> pystr \<Rightarrow> pystr \<Rightarrow> pystr" where
  "replace_from old new s =
     (if old = [] \<or> s = [] then s
      else if prefix old s then new @ replace_from old new (drop (length old) s)
      else hd s # replace_from old new (tl s))"
  by pat_completeness auto
termination
  by (relation "measure (\<lambda>(old, new, s). length s)") auto

definition replace :: "pystr \<Rightarrow> pystr \<Rightarrow> pystr \<Rightarrow> pystr" where
  "replace old new s =
     (if old = [] then new @ concat (map (\<lambda>c. c # new) s) else replace_from old new s)"

text \<open>\<open>s.split(sep)\<close> for a separator of one character, and \<open>sep.join(xs)\<close>.\<close>

fun split :: "codepoint \<Rightarrow> pystr \<Rightarrow> pystr list" where
  "split sep [] = [[]]"
| "split sep (c # cs) =
     (if c = sep then [] # split sep cs
      else (case split sep cs of [] \<Rightarrow> [[c]] | w # ws \<Rightarrow> (c # w) # ws))"

fun join :: "pystr \<Rightarrow> pystr list \<Rightarrow> pystr" where
  "join sep [] = []"
| "join sep [x] = x"
| "join sep (x # y # ys) = x @ sep @ join sep (y # ys)"

text \<open>\<open>xs.index(x)\<close> of a list: the first position of \<open>x\<close>, or ValueError.\<close>

fun index :: "'a list \<Rightarrow> 'a \<Rightarrow> py_error + nat" where
  "index [] x = Inl ValueError"
| "index (y # ys) x =
     (if y = x then Inr 0 else (case index ys x of Inl e \<Rightarrow> Inl e | Inr n \<Rightarrow> Inr (Suc n)))"

section \<open>Regular expressions\<close>

text \<open>
  The patterns of the parser are sequences of single characters and character classes,
  each taken once or under \<open>*\<close>, \<open>+\<close> or the lazy \<open>*?\<close>, with at most one group around
  one of them. \<open>rmatch\<close> is the backtracking matcher of \<open>re\<close> anchored at the start of
  its input: a greedy repetition tries the longest run first, a lazy one the shortest,
  and the first alternative whose continuation matches wins. The result is the matched
  text and the text of the group.
\<close>

type_synonym cclass = "codepoint \<Rightarrow> bool"

definition chr :: "char \<Rightarrow> cclass" where
  "chr c = (\<lambda>x. x = of_char c)"

definition glyph_chr :: cclass where
  "glyph_chr = (\<lambda>x. x = glyph)"

definition dot :: cclass where
  \<comment> \<open>\<open>.\<close> without DOTALL: everything but the line feed\<close>
  "dot = (\<lambda>x. x \<noteq> 10)"

definition digit09 :: cclass where
  \<comment> \<open>\<open>[0-9]\<close>\<close>
  "digit09 = (\<lambda>x. 48 \<le> x \<and> x \<le> 57)"

datatype tok = One cclass | Star cclass | Plus cclass | LazyStar cclass | Group tok

fun counts :: "tok \<Rightarrow> pystr \<Rightarrow> nat list" where
  "counts (One a) s = (case s of [] \<Rightarrow> [] | c # cs \<Rightarrow> if a c then [1] else [])"
| "counts (Star a) s = rev [0 ..< Suc (length (takeWhile a s))]"
| "counts (Plus a) s = rev [1 ..< Suc (length (takeWhile a s))]"
| "counts (LazyStar a) s = [0 ..< Suc (length (takeWhile a s))]"
| "counts (Group t) s = counts t s"

fun is_group :: "tok \<Rightarrow> bool" where
  "is_group (Group t) = True"
| "is_group t = False"

fun first_some :: "('a \<Rightarrow> 'b option) \<Rightarrow> 'a list \<Rightarrow> 'b option" where
  "first_some f [] = None"
| "first_some f (k # ks) = (case f k of Some v \<Rightarrow> Some v | None \<Rightarrow> first_some f ks)"

primrec rmatch :: "tok list \<Rightarrow> pystr \<Rightarrow> (pystr \<times> pystr option) option" where
  "rmatch [] s = Some ([], None)"
| "rmatch (t # ts) s =
     first_some
       (\<lambda>k. case rmatch ts (drop k s) of
               None \<Rightarrow> None
             | Some (w, g) \<Rightarrow> Some (take k s @ w, if is_group t then Some (take k s) else g))
       (counts t s)"

text \<open>
  \<open>findall\<close> scans from the left: at a position where the pattern matches, the match is
  recorded (the group's text if the pattern has a group, the whole match otherwise) and
  the scan goes on after it; elsewhere it moves one character on. The second argument of
  \<open>scan\<close> counts the characters of the last match still to be skipped. Every pattern of
  the parser consumes at least one character, so empty matches do not arise.
\<close>

fun scan :: "tok list \<Rightarrow> nat \<Rightarrow> pystr \<Rightarrow> pystr list" where
  "scan p k [] = []"
| "scan p k (c # cs) =
     (if 0 < k then scan p (k - 1) cs
      else (case rmatch p (c # cs) of
              None \<Rightarrow> scan p 0 cs
            | Some (w, g) \<Rightarrow> (case g of Some x \<Rightarrow> x | None \<Rightarrow> w) # scan p (length w - 1) cs))"

definition findall :: "tok list \<Rightarrow> pystr \<Rightarrow> pystr list" where
  "findall p s = scan p 0 s"

text \<open>The patterns, as the source writes them.\<close>

definition coin_re :: "tok list" where
  \<comment> \<open>\<^verbatim>\<open>\*\*G [0-9]+\*\*\<close>, \<open>G\<close> the currency glyph\<close>
  "coin_re = [One (chr CHR ''*''), One (chr CHR ''*''), One glyph_chr, One (chr CHR '' ''),
              Plus digit09, One (chr CHR ''*''), One (chr CHR ''*'')]"

definition num_re :: "tok list" where
  \<comment> \<open>\<^verbatim>\<open>[0-9]+\<close>\<close>
  "num_re = [Plus digit09]"

definition bold_re :: "tok list" where
  \<comment> \<open>\<^verbatim>\<open>\*\*(.*?)\*\*\<close>\<close>
  "bold_re = [One (chr CHR ''*''), One (chr CHR ''*''), Group (LazyStar dot),
              One (chr CHR ''*''), One (chr CHR ''*'')]"

definition tag_re :: "tok list" where
  \<comment> \<open>\<^verbatim>\<open><(.*?)\>\<close>\<close>
  "tag_re = [One (chr CHR ''<''), Group (LazyStar dot), One (chr CHR ''>'')]"

definition qty_re :: "tok list" where
  \<comment> \<open>\<^verbatim>\<open>\*\*[0-9]+x\<close>\<close>
  "qty_re = [One (chr CHR ''*''), One (chr CHR ''*''), Plus digit09, One (chr CHR ''x'')]"

definition qty_item_re :: "tok list" where
  \<comment> \<open>\<^verbatim>\<open>\*\*[0-9]+x .+\*\*\<close>\<close>
  "qty_item_re = [One (chr CHR ''*''), One (chr CHR ''*''), Plus digit09, One (chr CHR ''x''),
                  One (chr CHR '' ''), Plus dot, One (chr CHR ''*''), One (chr CHR ''*'')]"

definition star_re :: "tok list" where
  \<comment> \<open>\<^verbatim>\<open>\*\*.*\*\<close>\<close>
  "star_re = [One (chr CHR ''*''), One (chr CHR ''*''), Star dot, One (chr CHR ''*'')]"

definition numx_re :: "tok list" where
  \<comment> \<open>\<^verbatim>\<open>[0-9]+x\<close>\<close>
  "numx_re = [Plus digit09, One (chr CHR ''x'')]"

section \<open>Integers from digits\<close>

text \<open>
  \<open>int(s)\<close> reads a string of decimal digits; the parser applies it to matches of digit
  patterns only. On the matches of \<^verbatim>\<open>[0-9]+\<close> the digits are the ASCII ones (\<open>py_int\<close>).
  On a match of \<^verbatim>\<open>\d+\<close> they are the decimal digits of any script, and both \<open>\d\<close> and
  \<open>int\<close> take a digit's value from the Unicode database: \<open>nd\<close> is that table on the
  code points beyond ASCII (\<open>py_int_u\<close>). A string that is empty or holds another
  character is a ValueError.
\<close>

definition ascii_decimal :: "codepoint \<Rightarrow> nat option" where
  "ascii_decimal c = (if 48 \<le> c \<and> c \<le> 57 then Some (c - 48) else None)"

definition py_decimal :: "(codepoint \<Rightarrow> nat option) \<Rightarrow> codepoint \<Rightarrow> nat option" where
  "py_decimal nd c = (if c < 128 then ascii_decimal c else nd c)"

fun digits_value :: "(codepoint \<Rightarrow> nat option) \<Rightarrow> int \<Rightarrow> pystr \<Rightarrow> py_error + int" where
  "digits_value dv acc [] = Inr acc"
| "digits_value dv acc (c # cs) =
     (case dv c of None \<Rightarrow> Inl ValueError
      | Some v \<Rightarrow> digits_value dv (10 * acc + int v) cs)"

definition py_int_u :: "(codepoint \<Rightarrow> nat option) \<Rightarrow> pystr \<Rightarrow> py_error + int" where
  "py_int_u nd s = (if s = [] then Inl ValueError else digits_value (py_decimal nd) 0 s)"

definition py_int :: "pystr \<Rightarrow> py_error + int" where
  "py_int s = (if s = [] then Inl ValueError else digits_value ascii_decimal 0 s)"

definition udigit :: "(codepoint \<Rightarrow> nat option) \<Rightarrow> cclass" where
  \<comment> \<open>\<^verbatim>\<open>\d\<close> of a \<open>str\<close> pattern\<close>
  "udigit nd = (\<lambda>x. py_decimal nd x \<noteq> None)"

definition udigits_re :: "(codepoint \<Rightarrow> nat option) \<Rightarrow> tok list" where
  \<comment> \<open>\<^verbatim>\<open>(\d+)\<close>\<close>
  "udigits_re nd = [Group (Plus (udigit nd))]"

text \<open>\<open>xs[i]\<close> for a list and \<open>i \<ge> 0\<close>.\<close>

definition item_at :: "'a list \<Rightarrow> nat \<Rightarrow> py_error + 'a" where
  "item_at xs i = (if i < length xs then Inr (xs ! i) else Inl IndexError)"

section \<open>Floats\<close>

text \<open>
  A finite \<open>float\<close> is the rational it denotes (the two zeros are one). \<open>binary64\<close>
  rounds a rational to the nearest double, ties to even; the quotients of this program
  stay far below the overflow threshold, which is not modelled. An \<open>int / int\<close> division
  is the correctly rounded quotient, and \<open>round(x, n)\<close> rounds the exact value of \<open>x\<close>
  to \<open>n\<close> decimals, ties to even, and returns the double nearest to that decimal.
\<close>

definition round_half_even :: "rat \<Rightarrow> int" where
  "round_half_even q =
     (let f = \<lfloor>q\<rfloor>; r = q - of_int f
      in if r < 1 / 2 then f else if 1 / 2 < r then f + 1 else if even f then f else f + 1)"

definition pow2 :: "int \<Rightarrow> rat" where
  "pow2 e = (if 0 \<le> e then 2 ^ nat e else 1 / 2 ^ nat (- e))"

definition ilog2 :: "rat \<Rightarrow> int" where
  \<comment> \<open>for \<open>q > 0\<close>: the \<open>e\<close> with \<open>2 ^ e \<le> q < 2 ^ (e + 1)\<close>\<close>
  "ilog2 q =
     (let (a, b) = quotient_of q; k = bitlen a - bitlen b
      in if pow2 k \<le> q then k else k - 1)"

definition binary64 :: "rat \<Rightarrow> rat" where
  "binary64 q =
     (if q = 0 then 0
      else let u = pow2 (max (ilog2 \<bar>q\<bar>) (- 1022) - 52)
           in of_int (round_half_even (q / u)) * u)"

definition py_round :: "rat \<Rightarrow> nat \<Rightarrow> rat" where
  "py_round x n = binary64 (of_int (round_half_even (x * 10 ^ n)) / 10 ^ n)"

section \<open>CommandResult\<close>

text \<open>
  The gain and loss dicts have the string keys \<open>"coins"\<close> and \<open>"items"\<close> and, in
  \<open>buy\<close> and \<open>sell\<close>, the quantity as an integer key. Under \<open>"coins"\<close> is an integer,
  under \<open>"items"\<close> a list of one-entry dicts \<open>{amount: name}\<close> (a pair here; the name is
  \<open>None\<close> where \<open>search\<close> found an amount and no name), under a quantity the item's name.
\<close>

datatype pykey = KStr pystr | KInt int

datatype pyval = VInt int | VStr pystr | VItems "(int \<times> pystr option) list"

type_synonym pydict = "pykey \<rightharpoonup> pyval"

text \<open>
  A result holds its dicts by reference. Every function of the parser builds the gain of
  its result at the call, so a gain is the dict itself here. The loss is another matter:
  the parameter \<open>loss\<close> of \<open>__init__\<close> has the default \<open>{}\<close>, which Python evaluates
  once, when the class is defined. Every result built without a loss argument holds that
  one dict, \<open>Default_loss\<close>, and a write through one of them shows in all of them;
  \<open>Dict d\<close> is a dict built at the call. \<open>contents shared r\<close> reads a reference and
  \<open>setitem shared r k v\<close> is the assignment \<open>r[k] = v\<close> of a caller through a
  reference, where \<open>shared\<close> is what the default dict holds before and the value of
  \<open>setitem\<close> what it holds afterwards. No function of the module writes to the default
  dict: it is empty until a caller does.
\<close>

datatype dict_ref = Default_loss | Dict pydict

definition contents :: "pydict \<Rightarrow> dict_ref \<Rightarrow> pydict" where
  "contents shared r = (case r of Default_loss \<Rightarrow> shared | Dict d \<Rightarrow> d)"

definition setitem :: "pydict \<Rightarrow> dict_ref \<Rightarrow> pykey \<Rightarrow> pyval \<Rightarrow> pydict" where
  "setitem shared r k v = (case r of Default_loss \<Rightarrow> shared(k \<mapsto> v) | Dict d \<Rightarrow> shared)"

record command_result =
  success :: bool
  death :: "bool option"
  gain :: "pydict option"
  loss :: "dict_ref option"
  cooldown :: "rat option"

text \<open>
  \<open>CommandResult(success, death, gain, loss, cooldown)\<close>. A call of the source that
  leaves the loss out is a call with \<open>Some Default_loss\<close> here.
\<close>

definition CommandResult ::
  "bool \<Rightarrow> bool option \<Rightarrow> pydict option \<Rightarrow> dict_ref option \<Rightarrow> rat option \<Rightarrow> command_result" where
  "CommandResult s d g l c =
     \<lparr>success = s, death = d, gain = g, loss = l,
      cooldown = (case c of None \<Rightarrow> None
                  | Some x \<Rightarrow> if x \<noteq> 0 then Some (py_round x 2) else Some x)\<rparr>"

definition coins_key :: pykey where
  "coins_key = KStr (str_of ''coins'')"

definition items_key :: pykey where
  "items_key = KStr (str_of ''items'')"

text \<open>Truth values of an optional integer and of an optional string.\<close>

definition truthy_int :: "int option \<Rightarrow> bool" where
  "truthy_int x = (case x of None \<Rightarrow> False | Some v \<Rightarrow> v \<noteq> 0)"

definition truthy_str :: "pystr option \<Rightarrow> bool" where
  "truthy_str x = (case x of None \<Rightarrow> False | Some v \<Rightarrow> v \<noteq> [])"

section \<open>Parser\<close>

text \<open>
  \<open>int(findall(gain_regex[1], findall(gain_regex[0], temp_desc)[0])[0])\<close>, the expression
  of \<open>beg\<close>, \<open>search\<close> and \<open>crime\<close> for the coin amount.
\<close>

definition coin_amount :: "pystr \<Rightarrow> py_error + int" where
  "coin_amount temp_desc =
     (case item_at (findall coin_re temp_desc) 0 of
        Inl e \<Rightarrow> Inl e
      | Inr m \<Rightarrow> (case item_at (findall num_re m) 0 of
                    Inl e \<Rightarrow> Inl e
                  | Inr d \<Rightarrow> py_int d))"

text \<open>
  The first \<open>try\<close> block of \<open>beg\<close> and \<open>crime\<close> assigns \<open>gained_coins\<close> that
  expression; under \<open>except: pass\<close> the variable stays \<open>None\<close> when it raises.
\<close>

definition coins_try :: "pystr \<Rightarrow> int option" where
  "coins_try temp_desc = (case coin_amount temp_desc of Inl e \<Rightarrow> None | Inr n \<Rightarrow> Some n)"

text \<open>\<open>"<" + tag + "> "\<close>\<close>

definition tempstring :: "pystr \<Rightarrow> pystr" where
  "tempstring tag = str_of ''<'' @ tag @ str_of ''> ''"

text \<open>
  A \<open>try\<close> block with \<open>except: pass\<close> is modelled by the values its variables have when
  the block is left, together with the exception that ended it, if any: an assignment
  made before the exception stays.

  In \<open>beg\<close> the branch without coins ends in \<open>item = item.replace(tempstring, "")\<close>;
  \<open>item\<close> is not bound in this function, so the statement raises UnboundLocalError and
  \<open>gained_item\<close> keeps the whole bold span.
\<close>

definition beg_item_try :: "int option \<Rightarrow> pystr \<Rightarrow> pystr option \<times> py_error option" where
  "beg_item_try gained_coins temp_desc =
     (if \<not> truthy_int gained_coins then
        (case item_at (findall bold_re temp_desc) 0 of
           Inl e \<Rightarrow> (None, Some e)
         | Inr gained_item \<Rightarrow>
             (case item_at (findall tag_re gained_item) 0 of
                Inl e \<Rightarrow> (Some gained_item, Some e)
              | Inr tag \<Rightarrow> (Some gained_item, Some UnboundLocalError)))
      else
        (case item_at (findall bold_re temp_desc) 1 of
           Inl e \<Rightarrow> (None, Some e)
         | Inr gained_item \<Rightarrow>
             (case item_at (findall tag_re gained_item) 0 of
                Inl e \<Rightarrow> (Some gained_item, Some e)
              | Inr tag \<Rightarrow> (Some (replace (tempstring tag) [] gained_item), None))))"

definition beg :: "pystr \<Rightarrow> command_result" where
  "beg description =
     (let temp_desc = replace (str_of '','') [] description;
          death = None;
          gained_coins = coins_try temp_desc;
          gained_item = fst (beg_item_try gained_coins temp_desc);
          gain0 = Map.empty;
          gain1 = (case gained_coins of None \<Rightarrow> gain0
                   | Some n \<Rightarrow> if n \<noteq> 0 then gain0(coins_key \<mapsto> VInt n) else gain0);
          gain2 = (case gained_item of None \<Rightarrow> gain1
                   | Some i \<Rightarrow> if i \<noteq> [] then gain1(items_key \<mapsto> VItems [(1, Some i)]) else gain1);
          success = (gained_coins \<noteq> None \<or> gained_item \<noteq> None)
      in CommandResult success death (Some gain2) (Some Default_loss) None)"

definition search_item_try ::
  "pystr \<Rightarrow> (int option \<times> pystr option) \<times> py_error option" where
  "search_item_try temp_desc =
     (case item_at (findall qty_re temp_desc) 0 of
        Inl e \<Rightarrow> ((None, None), Some e)
      | Inr m \<Rightarrow>
          (case py_int (replace (str_of ''x'') [] (replace (str_of ''**'') [] m)) of
             Inl e \<Rightarrow> ((None, None), Some e)
           | Inr item_amount \<Rightarrow>
               (case item_at (findall qty_item_re temp_desc) 0 of
                  Inl e \<Rightarrow> ((Some item_amount, None), Some e)
                | Inr w \<Rightarrow>
                    ((Some item_amount,
                      Some (join (str_of '' '')
                              (drop 2 (split (of_char CHR '' '') (replace (str_of ''**'') [] w))))),
                     None))))"

definition search :: "pystr \<Rightarrow> command_result" where
  "search description =
     (let gain0 = Map.empty;
          temp_desc = replace (str_of '','') [] description;
          (item_amount, item) = fst (search_item_try temp_desc);
          death = None;
          (gained_coins, success) =
             (case coin_amount temp_desc of Inl e \<Rightarrow> (None, False) | Inr n \<Rightarrow> (Some n, True));
          gain1 = (case gained_coins of None \<Rightarrow> gain0
                   | Some n \<Rightarrow> if n \<noteq> 0 then gain0(coins_key \<mapsto> VInt n) else gain0);
          gain2 = (case item_amount of None \<Rightarrow> gain1
                   | Some a \<Rightarrow> if a \<noteq> 0 then gain1(items_key \<mapsto> VItems [(a, item)]) else gain1)
      in CommandResult success death (Some gain2) (Some Default_loss) None)"

definition common1 :: "pystr \<Rightarrow> command_result" where
  "common1 description =
     (let temp_desc = replace (str_of '','') [] description;
          (gained_items, success) =
             (case item_at (findall star_re temp_desc) 0 of
                Inl e \<Rightarrow> (None, False)
              | Inr m \<Rightarrow>
                  (Some (join (str_of '' '')
                           (drop 1 (split (of_char CHR '' '') (replace (str_of ''**'') [] m)))),
                   True));
          death = None;
          gain0 = Map.empty;
          gain1 = (case gained_items of None \<Rightarrow> gain0
                   | Some i \<Rightarrow> if i \<noteq> [] then gain0(items_key \<mapsto> VItems [(1, Some i)]) else gain0)
      in CommandResult success death (Some gain1) (Some Default_loss) None)"

definition crime_item_try :: "int option \<Rightarrow> pystr \<Rightarrow> pystr option \<times> py_error option" where
  "crime_item_try gained_coins temp_desc =
     (if \<not> truthy_int gained_coins then
        (case item_at (findall bold_re temp_desc) 0 of
           Inl e \<Rightarrow> (None, Some e)
         | Inr item \<Rightarrow>
             (case item_at (findall tag_re item) 0 of
                Inl e \<Rightarrow> (Some item, Some e)
              | Inr tag \<Rightarrow> (Some (replace (tempstring tag) [] item), None)))
      else
        (case item_at (findall bold_re temp_desc) 1 of
           Inl e \<Rightarrow> (None, Some e)
         | Inr item \<Rightarrow>
             (case item_at (findall tag_re item) 0 of
                Inl e \<Rightarrow> (Some item, Some e)
              | Inr tag \<Rightarrow> (Some (replace (tempstring tag) [] item), None))))"

definition crime :: "pystr \<Rightarrow> command_result" where
  "crime description =
     (let gain0 = Map.empty;
          temp_desc = replace (str_of '','') [] description;
          death = None;
          gained_coins = coins_try temp_desc;
          item = fst (crime_item_try gained_coins temp_desc);
          gain1 = (case gained_coins of None \<Rightarrow> gain0
                   | Some n \<Rightarrow> if n \<noteq> 0 then gain0(coins_key \<mapsto> VInt n) else gain0);
          gain2 = (case item of None \<Rightarrow> gain1
                   | Some i \<Rightarrow> if i \<noteq> [] then gain1(items_key \<mapsto> VItems [(1, Some i)]) else gain1);
          success = (gained_coins \<noteq> None \<or> item \<noteq> None)
      in CommandResult success death (Some gain2) (Some Default_loss) None)"

text \<open>
  The loop of \<open>postmemes\<close> over the lines: a coin line sets \<open>gain["coins"]\<close>, an item
  line appends \<open>{amount: item}\<close> to \<open>gain["items"]\<close>, which is created empty at the
  first item line. Neither \<open>findall(...)[0]\<close> is guarded, so a line without the
  number ends the function with IndexError.
\<close>

definition postmemes_line :: "pydict \<Rightarrow> pystr \<Rightarrow> py_error + pydict" where
  "postmemes_line gain0 i =
     (if contains [glyph] i then
        (case item_at (findall num_re i) 0 of
           Inl e \<Rightarrow> Inl e
         | Inr d \<Rightarrow> (case py_int d of
                       Inl e \<Rightarrow> Inl e
                     | Inr n \<Rightarrow> Inr (gain0(coins_key \<mapsto> VInt n))))
      else if contains (str_of ''<:'') i then
        (let items = (case gain0 items_key of Some (VItems l) \<Rightarrow> l | _ \<Rightarrow> [])
         in case item_at (findall numx_re i) 0 of
              Inl e \<Rightarrow> Inl e
            | Inr m \<Rightarrow>
                (case py_int (replace (str_of ''x'') [] m) of
                   Inl e \<Rightarrow> Inl e
                 | Inr amount \<Rightarrow>
                     (let item = join (str_of '' '') (drop 5 (split (of_char CHR '' '') i))
                      in Inr (gain0(items_key \<mapsto> VItems (items @ [(amount, Some item)]))))))
      else Inr gain0)"

fun postmemes_loop :: "pydict \<Rightarrow> pystr list \<Rightarrow> py_error + pydict" where
  "postmemes_loop gain0 [] = Inr gain0"
| "postmemes_loop gain0 (i # rest) =
     (case postmemes_line gain0 i of
        Inl e \<Rightarrow> Inl e
      | Inr gain1 \<Rightarrow> postmemes_loop gain1 rest)"

definition postmemes :: "pystr \<Rightarrow> py_error + command_result" where
  "postmemes description =
     (let parsed0 = drop 3 (split 10 (replace (str_of '','') [] description));
          parsed = (case index parsed0 (str_of ''**You Received:**'') of
                      Inl e \<Rightarrow> parsed0
                    | Inr n \<Rightarrow> drop n parsed0);
          death = None
      in if contains (str_of ''**You Received'') description then
           (case postmemes_loop Map.empty parsed of
              Inl e \<Rightarrow> Inl e
            | Inr gain1 \<Rightarrow> Inr (CommandResult True death (Some gain1) (Some Default_loss) None))
         else Inr (CommandResult False death (Some Map.empty) (Some Default_loss) None))"

definition buy :: "pystr \<Rightarrow> pystr \<Rightarrow> int \<Rightarrow> py_error + command_result" where
  "buy description item quantity =
     (if contains (str_of ''bought'') description \<and> contains (str_of ''and paid'') description
      then
        (let temp_desc = replace (str_of '','') [] description
         in case item_at (findall bold_re temp_desc) 1 of
              Inl e \<Rightarrow> Inl e
            | Inr b \<Rightarrow>
                (case item_at (findall num_re b) 0 of
                   Inl e \<Rightarrow> Inl e
                 | Inr d \<Rightarrow>
                     (case py_int d of
                        Inl e \<Rightarrow> Inl e
                      | Inr paid \<Rightarrow>
                          Inr (CommandResult True None (Some [KInt quantity \<mapsto> VStr item])
                                 (Some (Dict [coins_key \<mapsto> VInt paid])) None))))
      else Inr (CommandResult False None None None None))"

definition sell :: "pystr \<Rightarrow> pystr \<Rightarrow> int \<Rightarrow> py_error + command_result" where
  "sell description item quantity =
     (if contains (str_of ''sold'') description \<and> contains (str_of ''and got paid'') description
      then
        (let temp_desc = replace (str_of '','') [] description
         in case item_at (findall bold_re temp_desc) 0 of
              Inl e \<Rightarrow> Inl e
            | Inr b \<Rightarrow>
                (case item_at (findall num_re b) 0 of
                   Inl e \<Rightarrow> Inl e
                 | Inr d \<Rightarrow>
                     (case py_int d of
                        Inl e \<Rightarrow> Inl e
                      | Inr earned \<Rightarrow>
                          Inr (CommandResult True None (Some [coins_key \<mapsto> VInt earned])
                                 (Some (Dict [KInt quantity \<mapsto> VStr item])) None))))
      else Inr (CommandResult False None None None None))"

text \<open>
  \<open>datetime.fromtimestamp(ts)\<close> and \<open>datetime.now()\<close> give naive datetimes: the
  reading of the wall clock of the local zone, without the zone. A naive datetime is its
  number of microseconds since 1970-01-01 00:00 on that wall clock. \<open>tz\<close> gives the UTC
  offset of the local zone, in seconds, at a POSIX time; it changes where daylight saving
  starts or ends. \<open>clock\<close>, the reading of the system clock in microseconds of POSIX
  time, is an argument. The difference of two naive datetimes is the difference of the
  two readings, and \<open>total_seconds\<close> divides its microseconds by \<open>10**6\<close>.

  \<open>fromtimestamp\<close> has no datetime outside the years 1 to 9999 of the wall clock. The
  exception it raises there is ValueError, OverflowError or OSError, depending on the
  \<open>time_t\<close> and the \<open>localtime\<close> of the platform; \<open>TimestampError\<close> stands for the
  three.
\<close>

definition min_wall :: int where
  \<comment> \<open>0001-01-01 00:00:00\<close>
  "min_wall = - 62135596800"

definition max_wall :: int where
  \<comment> \<open>9999-12-31 23:59:59\<close>
  "max_wall = 253402300799"

definition fromtimestamp :: "(int \<Rightarrow> int) \<Rightarrow> int \<Rightarrow> py_error + int" where
  "fromtimestamp tz ts =
     (let wall = ts + tz ts
      in if min_wall \<le> wall \<and> wall \<le> max_wall then Inr (wall * 1000000)
         else Inl TimestampError)"

definition datetime_now :: "(int \<Rightarrow> int) \<Rightarrow> int \<Rightarrow> int" where
  "datetime_now tz clock = clock + tz (clock div 1000000) * 1000000"

definition total_seconds :: "int \<Rightarrow> rat" where
  "total_seconds us = binary64 (of_int us / 1000000)"

definition tagged_time :: "(codepoint \<Rightarrow> nat option) \<Rightarrow> pystr \<Rightarrow> py_error + int" where
  \<comment> \<open>\<open>int(findall(cooldown_regex[1], findall(cooldown_regex[0], description)[0])[0])\<close>\<close>
  "tagged_time nd description =
     (case item_at (findall tag_re description) 0 of
        Inl e \<Rightarrow> Inl e
      | Inr tag \<Rightarrow> (case item_at (findall (udigits_re nd) tag) 0 of
                      Inl e \<Rightarrow> Inl e
                    | Inr d \<Rightarrow> py_int_u nd d))"

definition parse_cooldown ::
  "(codepoint \<Rightarrow> nat option) \<Rightarrow> (int \<Rightarrow> int) \<Rightarrow> int \<Rightarrow> pystr
   \<Rightarrow> py_error + command_result" where
  \<comment> \<open>\<open>Parser.cooldown\<close>\<close>
  "parse_cooldown nd tz clock description =
     (case tagged_time nd description of
        Inl e \<Rightarrow> Inl e
      | Inr ts \<Rightarrow>
          (case fromtimestamp tz ts of
             Inl e \<Rightarrow> Inl e
           | Inr time \<Rightarrow>
               (let difference = total_seconds (time - datetime_now tz clock)
                in Inr (CommandResult False None (Some Map.empty) (Some Default_loss)
                          (Some difference)))))"

definition check_cooldown :: "pystr \<Rightarrow> bool" where
  "check_cooldown description =
     (contains (str_of ''seconds'') description \<and> contains (str_of ''command'') description
      \<and> contains (str_of ''cooldown is'') description
      \<and> contains (str_of ''seconds'') description)"

section \<open>Cache\<close>

record ('n, 'i, 'm) cache =
  nonce_message_map :: "'n \<rightharpoonup> 'i"
  interaction_create :: "'n list"
  interaction_success :: "'n list"
  raw_message_updates :: "'m list"
  message_create :: "'n \<rightharpoonup> 'm"
  message_updates :: "'i \<rightharpoonup> 'm"

definition clear :: "('n, 'i, 'm) cache \<Rightarrow> 'n \<Rightarrow> ('n, 'i, 'm) cache" where
  "clear self nonce =
     (let c1 = (case nonce_message_map self nonce of
                  None \<Rightarrow> self
                | Some relevant_id \<Rightarrow>
                    (let c = self\<lparr>nonce_message_map := (nonce_message_map self)(nonce := None)\<rparr>
                     in if relevant_id \<in> dom (message_updates c)
                        then c\<lparr>message_updates := (message_updates c)(relevant_id := None)\<rparr>
                        else c));
          c2 = (if nonce \<in> set (interaction_create c1)
                then c1\<lparr>interaction_create := remove1 nonce (interaction_create c1)\<rparr> else c1);
          c3 = (if nonce \<in> set (interaction_success c2)
                then c2\<lparr>interaction_success := remove1 nonce (interaction_success c2)\<rparr> else c2);
          c4 = (if nonce \<in> dom (message_create c3)
                then c3\<lparr>message_create := (message_create c3)(nonce := None)\<rparr> else c3)
      in c4\<lparr>raw_message_updates := []\<rparr>)"

section \<open>Notions of the specification\<close>

text \<open>
  The number that a string of decimal digits denotes, with the digit values of \<open>dv\<close>,
  and the first integer of a text: its leftmost maximal run of ASCII digits.
\<close>

definition decimal_of :: "(codepoint \<Rightarrow> nat option) \<Rightarrow> pystr \<Rightarrow> int" where
  "decimal_of dv s =
     foldl (\<lambda>acc c. 10 * acc + int (case dv c of None \<Rightarrow> 0 | Some v \<Rightarrow> v)) 0 s"

definition first_number :: "pystr \<Rightarrow> pystr" where
  "first_number s = takeWhile digit09 (dropWhile (\<lambda>c. \<not> digit09 c) s)"

text \<open>The amount of a coin span \<open>**G N**\<close>: the number that its first integer denotes.\<close>

definition coin_value :: "pystr \<Rightarrow> int" where
  "coin_value m = decimal_of ascii_decimal (first_number m)"

text \<open>The results of the parsing engine: what one of its functions returns.\<close>

inductive produced ::
  "(codepoint \<Rightarrow> nat option) \<Rightarrow> (int \<Rightarrow> int) \<Rightarrow> int \<Rightarrow> command_result \<Rightarrow> bool"
  for nd :: "codepoint \<Rightarrow> nat option" and tz :: "int \<Rightarrow> int" and clock :: int where
  by_beg: "produced nd tz clock (beg description)"
| by_search: "produced nd tz clock (search description)"
| by_common1: "produced nd tz clock (common1 description)"
| by_crime: "produced nd tz clock (crime description)"
| by_postmemes: "postmemes description = Inr r \<Longrightarrow> produced nd tz clock r"
| by_buy: "buy description item quantity = Inr r \<Longrightarrow> produced nd tz clock r"
| by_sell: "sell description item quantity = Inr r \<Longrightarrow> produced nd tz clock r"
| by_cooldown: "parse_cooldown nd tz clock description = Inr r \<Longrightarrow> produced nd tz clock r"

text \<open>
  The result of an extractor that found nothing, \<open>CommandResult(False, None, {})\<close>: no
  success, an empty gain, the loss left to the default.
\<close>

definition no_result :: command_result where
  "no_result = \<lparr>success = False, death = None, gain = Some Map.empty,
                 loss = Some Default_loss, cooldown = None\<rparr>"

section \<open>Example inputs\<close>

definition beg_reply :: pystr where
  "beg_reply = str_of ''You went out to beg and got **'' @ [glyph] @ str_of '' 150**!''"





definition search_item_reply :: pystr where
  "search_item_reply = str_of ''You found **2x <:apple:1> Apple** in the grass''"

definition search_zero_reply :: pystr where
  "search_zero_reply = str_of ''You found **'' @ [glyph] @ str_of '' 0** in the grass''"

definition unrelated_reply :: pystr where
  "unrelated_reply = str_of ''Nothing to see here''"

definition buy_no_price_reply :: pystr where
  "buy_no_price_reply = str_of ''You bought it and paid nothing''"

definition buy_reply :: pystr where
  "buy_reply =
     str_of ''You bought **3 Apple** and paid **'' @ [glyph] @ str_of '' 1,200**''"

definition sell_reply :: pystr where
  "sell_reply =
     str_of ''You sold 3 Apple and got paid **'' @ [glyph] @ str_of '' 1,200** for **it**''"

definition cooldown_reply :: pystr where
  "cooldown_reply =
     str_of ''The default cooldown is <t:1700000000:R> seconds for this command''"

definition coin_line :: pystr where
  "coin_line = [glyph] @ str_of '' 5''"

definition postmemes_unmarked_reply :: pystr where
  "postmemes_unmarked_reply =
     str_of ''**You Received a lot'' @ [10] @ str_of ''a'' @ [10] @ str_of ''b'' @ [10]
     @ coin_line"

definition price_span :: pystr where
  "price_span = [glyph] @ str_of '' 1200''"

definition beg_empty_span_reply :: pystr where
  "beg_empty_span_reply = str_of ''You got **** today''"

definition common1_word_reply :: pystr where
  "common1_word_reply = str_of ''You found **nothing**''"

definition apple :: pystr where
  "apple = str_of ''apple''"

definition utc :: "int \<Rightarrow> int" where
  \<comment> \<open>a zone without offset\<close>
  "utc t = 0"

definition cet :: "int \<Rightarrow> int" where
  \<comment> \<open>a zone one hour east of UTC, without daylight saving\<close>
  "cet t = 3600"

definition berlin :: "int \<Rightarrow> int" where
  \<comment> \<open>the zone of Berlin around 2023-10-29 01:00 UTC, when daylight saving ended\<close>
  "berlin t = (if t < 1698541200 then 7200 else 3600)"

definition cooldown_mention_reply :: pystr where
  "cooldown_mention_reply =
     str_of ''<@1> The default cooldown is <t:1700000000:R> seconds for this command''"

definition cooldown_dst_reply :: pystr where
  "cooldown_dst_reply =
     str_of ''The default cooldown is <t:1698541205:R> seconds for this command''"

definition sell_no_number_reply :: pystr where
  "sell_no_number_reply = str_of ''You sold it and got paid **nothing**''"




definition beg_no_coin_tagged_reply :: pystr where
  "beg_no_coin_tagged_reply = str_of ''Take this **<:note:77> Bank Note**''"

definition coin_span_150 :: pystr where
  "coin_span_150 = str_of ''**'' @ [glyph] @ str_of '' 150**''"


definition cooldown_far_reply :: pystr where
  "cooldown_far_reply =
     str_of ''The default cooldown is <t:999999999999:R> seconds for this command''"

definition cooldown_no_digits_reply :: pystr where
  "cooldown_no_digits_reply =
     str_of ''The default cooldown is <t:soon:R> seconds for this command''"


definition ascii_only :: "codepoint \<Rightarrow> nat option" where
  \<comment> \<open>a digit table without digits beyond ASCII\<close>
  "ascii_only c = None"

definition cache_raw :: "(nat, nat, nat) cache" where
  "cache_raw = \<lparr>nonce_message_map = Map.empty, interaction_create = [],
                 interaction_success = [], raw_message_updates = [7],
                 message_create = Map.empty, message_updates = Map.empty\<rparr>"

definition cache_busy :: "(nat, nat, nat) cache" where
  "cache_busy = \<lparr>nonce_message_map = [2 \<mapsto> 5], interaction_create = [2, 3],
                  interaction_success = [3], raw_message_updates = [7],
                  message_create = [3 \<mapsto> 8], message_updates = [5 \<mapsto> 9]\<rparr>"

section \<open>Lemmas on the matcher\<close>

lemma first_some_SomeD: "first_some f ks = Some v \<Longrightarrow> \<exists>k \<in> set ks. f k = Some v"
  by (induction ks) (auto split: option.splits)


lemma first_some_hd: "f k = Some v \<Longrightarrow> first_some f (k # ks) = Some v"
  by simp

lemma take_takeWhile_all: "k \<le> length (takeWhile a s) \<Longrightarrow> \<forall>c \<in> set (take k s). a c"
proof (induction s arbitrary: k)
  case Nil
  then show ?case by simp
next
  case (Cons x xs)
  then show ?case by (cases k) (auto split: if_splits)
qed

lemma rmatch_single:
  "rmatch [t] s = Some (w, g) \<Longrightarrow>
     \<exists>k \<in> set (counts t s). w = take k s \<and> g = (if is_group t then Some w else None)"
  by (auto dest!: first_some_SomeD split: if_splits)

lemma rmatch_Plus_sound:
  assumes "rmatch [Plus a] s = Some (w, g)"
  shows "w \<noteq> [] \<and> (\<forall>c \<in> set w. a c) \<and> g = None"
proof -
  from rmatch_single [OF assms] obtain k where k: "k \<in> set (counts (Plus a) s)"
    and w: "w = take k s" and g: "g = None"
    by auto
  from k have k1: "1 \<le> k" and k2: "k \<le> length (takeWhile a s)" by auto
  have "length (takeWhile a s) \<le> length s" by (rule length_takeWhile_le)
  with k1 k2 have "take k s \<noteq> []" by auto
  with take_takeWhile_all [OF k2] w g show ?thesis by simp
qed

lemma rmatch_GroupPlus_sound:
  assumes "rmatch [Group (Plus a)] s = Some (w, g)"
  shows "w \<noteq> [] \<and> (\<forall>c \<in> set w. a c) \<and> g = Some w"
proof -
  from rmatch_single [OF assms] obtain k where k: "k \<in> set (counts (Group (Plus a)) s)"
    and w: "w = take k s" and g: "g = Some w"
    by auto
  from k have k1: "1 \<le> k" and k2: "k \<le> length (takeWhile a s)" by auto
  have "length (takeWhile a s) \<le> length s" by (rule length_takeWhile_le)
  with k1 k2 have "take k s \<noteq> []" by auto
  with take_takeWhile_all [OF k2] w g show ?thesis by simp
qed

lemma scan_sound:
  "x \<in> set (scan p k s) \<Longrightarrow>
     \<exists>s' w g. rmatch p s' = Some (w, g) \<and> x = (case g of Some y \<Rightarrow> y | None \<Rightarrow> w)"
proof (induction s arbitrary: k)
  case Nil
  then show ?case by simp
next
  case (Cons c cs)
  show ?case
  proof (cases "0 < k")
    case True
    with Cons show ?thesis by simp
  next
    case False
    show ?thesis
    proof (cases "rmatch p (c # cs)")
      case None
      with False Cons show ?thesis by simp
    next
      case (Some r)
      obtain w g where r: "r = (w, g)" by (cases r)
      from Cons.prems False Some r
      have "x = (case g of Some y \<Rightarrow> y | None \<Rightarrow> w) \<or> x \<in> set (scan p (length w - 1) cs)"
        by simp
      then show ?thesis
      proof
        assume "x = (case g of Some y \<Rightarrow> y | None \<Rightarrow> w)"
        with Some r show ?thesis by blast
      next
        assume "x \<in> set (scan p (length w - 1) cs)"
        then show ?thesis by (rule Cons.IH)
      qed
    qed
  qed
qed

lemma findall_num_digits:
  assumes "x \<in> set (findall num_re s)"
  shows "x \<noteq> [] \<and> (\<forall>c \<in> set x. digit09 c)"
proof -
  from assms obtain s' w g where "rmatch [Plus digit09] s' = Some (w, g)"
    and "x = (case g of Some y \<Rightarrow> y | None \<Rightarrow> w)"
    unfolding findall_def num_re_def by (blast dest: scan_sound)
  with rmatch_Plus_sound [of digit09 s' w g] show ?thesis by simp
qed

lemma findall_udigits:
  assumes "x \<in> set (findall (udigits_re nd) s)"
  shows "x \<noteq> [] \<and> (\<forall>c \<in> set x. udigit nd c)"
proof -
  from assms obtain s' w g where "rmatch [Group (Plus (udigit nd))] s' = Some (w, g)"
    and "x = (case g of Some y \<Rightarrow> y | None \<Rightarrow> w)"
    unfolding findall_def udigits_re_def by (blast dest: scan_sound)
  with rmatch_GroupPlus_sound [of "udigit nd" s' w g] show ?thesis by simp
qed

lemma digits_value_decimal:
  "\<forall>c \<in> set s. dv c \<noteq> None \<Longrightarrow>
     digits_value dv acc s =
       Inr (foldl (\<lambda>acc c. 10 * acc + int (case dv c of None \<Rightarrow> 0 | Some v \<Rightarrow> v)) acc s)"
  by (induction s arbitrary: acc) (auto split: option.splits)

lemma py_int_digits:
  assumes "s \<noteq> []" and "\<forall>c \<in> set s. digit09 c"
  shows "py_int s = Inr (decimal_of ascii_decimal s)"
proof -
  from assms(2) have "\<forall>c \<in> set s. ascii_decimal c \<noteq> None"
    by (simp add: digit09_def ascii_decimal_def)
  with assms(1) show ?thesis
    by (simp add: py_int_def decimal_of_def digits_value_decimal)
qed

lemma py_int_u_digits:
  assumes "s \<noteq> []" and "\<forall>c \<in> set s. udigit nd c"
  shows "py_int_u nd s = Inr (decimal_of (py_decimal nd) s)"
proof -
  from assms(2) have "\<forall>c \<in> set s. py_decimal nd c \<noteq> None"
    by (simp add: udigit_def)
  with assms(1) show ?thesis
    by (simp add: py_int_u_def decimal_of_def digits_value_decimal)
qed

section \<open>The literal of beg\<close>

lemma beg_reply_coins: "coins_try (replace (str_of '','') [] beg_reply) = Some 150"
  by code_simp

lemma beg_reply_item:
  "beg_item_try (Some 150) (replace (str_of '','') [] beg_reply) = (None, Some IndexError)"
  by code_simp

text \<open>
  C1. On the text \<open>You went out to beg and got **G 150**!\<close> (\<open>G\<close> the currency glyph),
  \<open>beg\<close> returns success with the gain \<open>{"coins": 150}\<close>, the loss left to the default,
  no death flag and no cooldown.
\<close>

theorem beg_literal:
  "beg beg_reply
   = \<lparr>success = True, death = None, gain = Some [coins_key \<mapsto> VInt 150],
      loss = Some Default_loss, cooldown = None\<rparr>"
  by (simp add: beg_def Let_def beg_reply_coins beg_reply_item CommandResult_def)

theorem beg_literal_witness:
  "success (beg beg_reply)
   \<and> gain (beg beg_reply) = Some [KStr (str_of ''coins'') \<mapsto> VInt 150]"
  using beg_literal by (simp add: coins_key_def)

section \<open>Cache.clear\<close>

text \<open>
  C9, as stated, fails: \<open>clear\<close> empties the list of raw updates also for a token that is
  in none of the collections.
\<close>

theorem clear_absent_counterexample:
  "1 \<notin> dom (nonce_message_map cache_raw) \<and> 1 \<notin> set (interaction_create cache_raw)
   \<and> 1 \<notin> set (interaction_success cache_raw) \<and> 1 \<notin> dom (message_create cache_raw)
   \<and> clear cache_raw 1 \<noteq> cache_raw
   \<and> raw_message_updates (clear cache_raw 1) = []"
  by (simp add: clear_def cache_raw_def)

text \<open>
  C9, amended. For a token that is in none of the collections, \<open>clear\<close> leaves the five
  collections of tokens and message ids as they are and empties the list of raw updates.
\<close>

theorem clear_absent:
  assumes "nonce \<notin> dom (nonce_message_map self)"
    and "nonce \<notin> set (interaction_create self)"
    and "nonce \<notin> set (interaction_success self)"
    and "nonce \<notin> dom (message_create self)"
  shows "clear self nonce = self\<lparr>raw_message_updates := []\<rparr>"
  using assms by (auto simp: clear_def Let_def split: option.splits)

theorem clear_absent_witness:
  "1 \<notin> dom (nonce_message_map cache_busy) \<and> 1 \<notin> set (interaction_create cache_busy)
   \<and> 1 \<notin> set (interaction_success cache_busy) \<and> 1 \<notin> dom (message_create cache_busy)
   \<and> clear cache_busy 1 = cache_busy\<lparr>raw_message_updates := []\<rparr>"
proof -
  have h: "1 \<notin> dom (nonce_message_map cache_busy)" "1 \<notin> set (interaction_create cache_busy)"
    "1 \<notin> set (interaction_success cache_busy)" "1 \<notin> dom (message_create cache_busy)"
    by (simp_all add: cache_busy_def)
  from h clear_absent [OF h] show ?thesis by simp
qed

section \<open>postmemes and its marker\<close>

lemma unmarked_parsed:
  "drop 3 (split 10 (replace (str_of '','') [] postmemes_unmarked_reply))
   = [coin_line]"
  by code_simp

lemma unmarked_index:
  "index [coin_line] (str_of ''**You Received:**'') = Inl ValueError"
  by code_simp

lemma unmarked_short: "contains (str_of ''**You Received'') postmemes_unmarked_reply"
  by code_simp

lemma unmarked_long: "\<not> contains (str_of ''**You Received:**'') postmemes_unmarked_reply"
  by code_simp

lemma unmarked_glyph: "contains [glyph] coin_line"
  by code_simp

lemma unmarked_number:
  "item_at (findall num_re coin_line) 0 = Inr (str_of ''5'')"
  by code_simp

lemma py_int_5: "py_int (str_of ''5'') = Inr 5"
  by code_simp

lemma unmarked_line:
  "postmemes_line Map.empty coin_line = Inr [coins_key \<mapsto> VInt 5]"
  unfolding postmemes_line_def by (simp only: unmarked_glyph unmarked_number py_int_5 if_True sum.case)

lemma unmarked_result:
  "postmemes postmemes_unmarked_reply
   = Inr \<lparr>success = True, death = None, gain = Some [coins_key \<mapsto> VInt 5],
          loss = Some Default_loss, cooldown = None\<rparr>"
  by (simp add: postmemes_def Let_def unmarked_parsed unmarked_index
      unmarked_short unmarked_line CommandResult_def)

text \<open>
  C8, as stated, fails: the reply below has no line \<open>**You Received:**\<close>, and \<open>postmemes\<close>
  returns success with the coins of its fourth line, because the test of the source is
  for the shorter text \<open>**You Received\<close>.
\<close>

theorem postmemes_marker_counterexample:
  "\<not> contains (str_of ''**You Received:**'') postmemes_unmarked_reply
   \<and> postmemes postmemes_unmarked_reply
       = Inr \<lparr>success = True, death = None, gain = Some [coins_key \<mapsto> VInt 5],
              loss = Some Default_loss, cooldown = None\<rparr>"
  by (simp add: unmarked_long unmarked_result)

text \<open>
  C8, amended. For every reply that does not contain \<open>**You Received\<close>, \<open>postmemes\<close>
  returns without success, with an empty gain; and a reply that contains it never gives a
  result without success.
\<close>

theorem postmemes_marker:
  "(\<not> contains (str_of ''**You Received'') description \<longrightarrow>
      postmemes description = Inr no_result)
   \<and> (contains (str_of ''**You Received'') description \<longrightarrow>
      (\<forall>r. postmemes description = Inr r \<longrightarrow> success r))"
  by (auto simp: postmemes_def Let_def CommandResult_def no_result_def split: sum.splits)

lemma unrelated_short: "\<not> contains (str_of ''**You Received'') unrelated_reply"
  by code_simp

theorem postmemes_marker_witness:
  "\<not> contains (str_of ''**You Received'') unrelated_reply
   \<and> postmemes unrelated_reply = Inr no_result
   \<and> contains (str_of ''**You Received'') postmemes_unmarked_reply
   \<and> (\<exists>r. postmemes postmemes_unmarked_reply = Inr r \<and> success r)"
proof -
  from unmarked_result obtain r
    where r: "postmemes postmemes_unmarked_reply = Inr r" by blast
  with postmemes_marker [of postmemes_unmarked_reply] unmarked_short
  have "success r" by blast
  with r postmemes_marker [of unrelated_reply] unrelated_short unmarked_short
  show ?thesis by blast
qed

section \<open>Rounding\<close>

lemma round_half_even_nonneg: "0 \<le> q \<Longrightarrow> 0 \<le> round_half_even q"
  by (simp add: round_half_even_def Let_def)

lemma round_half_even_cases:
  "round_half_even q = \<lfloor>q\<rfloor> \<or> round_half_even q = \<lfloor>q\<rfloor> + 1"
  by (simp add: round_half_even_def Let_def)

lemma round_half_even_0: "round_half_even 0 = 0"
  by (simp add: round_half_even_def)

lemma round_half_even_nonpos:
  assumes "q \<le> 0"
  shows "round_half_even q \<le> 0"
proof (cases "q = 0")
  case True
  then show ?thesis by (simp add: round_half_even_0)
next
  case False
  with assms have "q < 0" by simp
  then have "\<lfloor>q\<rfloor> + 1 \<le> 0" by linarith
  with round_half_even_cases [of q] show ?thesis by arith
qed

lemma round_half_even_close: "\<bar>of_int (round_half_even q) - q\<bar> \<le> 1 / 2"
proof -
  have a: "of_int \<lfloor>q\<rfloor> \<le> q" and b: "q < of_int \<lfloor>q\<rfloor> + 1" by linarith+
  show ?thesis
    using a b by (auto simp: round_half_even_def Let_def abs_le_iff)
qed

lemma pow2_pos: "0 < pow2 e"
  by (simp add: pow2_def)

lemma binary64_0: "binary64 0 = 0"
  by (simp add: binary64_def)

lemma binary64_nonneg:
  assumes "0 \<le> q"
  shows "0 \<le> binary64 q"
proof (cases "q = 0")
  case True
  then show ?thesis by (simp add: binary64_0)
next
  case False
  define u where "u = pow2 (max (ilog2 \<bar>q\<bar>) (- 1022) - 52)"
  have u: "0 < u" unfolding u_def by (rule pow2_pos)
  with assms have "0 \<le> q / u" by simp
  then have "0 \<le> round_half_even (q / u)" by (rule round_half_even_nonneg)
  then have "0 \<le> (of_int (round_half_even (q / u)) :: rat)" by simp
  with u have "0 \<le> of_int (round_half_even (q / u)) * u"
    by (simp add: less_imp_le)
  with False show ?thesis by (simp add: binary64_def Let_def u_def)
qed

lemma binary64_nonpos:
  assumes "q \<le> 0"
  shows "binary64 q \<le> 0"
proof (cases "q = 0")
  case True
  then show ?thesis by (simp add: binary64_0)
next
  case False
  define u where "u = pow2 (max (ilog2 \<bar>q\<bar>) (- 1022) - 52)"
  have u: "0 < u" unfolding u_def by (rule pow2_pos)
  with assms have "q / u \<le> 0" by (simp add: divide_nonpos_pos)
  then have "round_half_even (q / u) \<le> 0" by (rule round_half_even_nonpos)
  then have "(of_int (round_half_even (q / u)) :: rat) \<le> 0" by simp
  with u have "of_int (round_half_even (q / u)) * u \<le> 0"
    by (simp add: mult_nonpos_nonneg less_imp_le)
  with False show ?thesis by (simp add: binary64_def Let_def u_def)
qed

lemma py_round_0: "py_round 0 n = 0"
  by (simp add: py_round_def round_half_even_0 binary64_0)

lemma py_round_nonneg: "0 \<le> x \<Longrightarrow> 0 \<le> py_round x n"
  unfolding py_round_def
  by (intro binary64_nonneg divide_nonneg_nonneg) (simp_all add: round_half_even_nonneg)

lemma py_round_nonpos:
  assumes "x \<le> 0"
  shows "py_round x n \<le> 0"
proof -
  have "x * 10 ^ n \<le> 0" using assms by (simp add: mult_nonpos_nonneg)
  then have "round_half_even (x * 10 ^ n) \<le> 0" by (rule round_half_even_nonpos)
  then have "(of_int (round_half_even (x * 10 ^ n)) :: rat) / 10 ^ n \<le> 0"
    by (simp add: divide_nonpos_pos)
  then show ?thesis unfolding py_round_def by (rule binary64_nonpos)
qed

lemma total_seconds_nonneg: "0 \<le> us \<Longrightarrow> 0 \<le> total_seconds us"
  unfolding total_seconds_def by (intro binary64_nonneg) simp

lemma total_seconds_nonpos: "us \<le> 0 \<Longrightarrow> total_seconds us \<le> 0"
  unfolding total_seconds_def by (intro binary64_nonpos) (simp add: divide_nonpos_pos)

lemma py_round_hundredths:
  "\<exists>k. py_round x 2 = binary64 (of_int k / 100) \<and> \<bar>of_int k / 100 - x\<bar> \<le> 1 / 200"
proof -
  define k where "k = round_half_even (x * 100)"
  have "\<bar>of_int k - x * 100\<bar> \<le> 1 / 2" unfolding k_def by (rule round_half_even_close)
  then have "\<bar>of_int k / 100 - x\<bar> \<le> 1 / 200" by (simp add: abs_le_iff field_simps)
  moreover have "py_round x 2 = binary64 (of_int k / 100)"
    by (simp add: py_round_def k_def)
  ultimately show ?thesis by blast
qed

lemma CommandResult_cooldown:
  "CommandResult s d g l (Some x)
   = \<lparr>success = s, death = d, gain = g, loss = l, cooldown = Some (py_round x 2)\<rparr>"
  by (simp add: CommandResult_def py_round_0)

section \<open>The cooldown notice\<close>

lemma time_tag_digits:
  "findall (udigits_re nd) (str_of ''t:1700000000:R'') = [str_of ''1700000000'']"
  by (simp add: findall_def udigits_re_def str_of_def udigit_def py_decimal_def
      ascii_decimal_def)

lemma time_tag_int: "py_int_u nd (str_of ''1700000000'') = Inr 1700000000"
  by (simp add: py_int_u_def str_of_def py_decimal_def ascii_decimal_def)

lemma ten_seconds: "py_round (total_seconds 10000000) 2 = 10"
  by code_simp

lemma minus_ten_seconds:
  "py_round (total_seconds (- 10000000)) 2 = - 10"
  by code_simp

lemma cooldown_reply_tags: "findall tag_re cooldown_reply = [str_of ''t:1700000000:R'']"
  by code_simp

lemma cooldown_reply_check: "check_cooldown cooldown_reply"
  by code_simp


lemma tagged_time_digits:
  assumes "findall tag_re description = tag # tags"
    and "findall (udigits_re nd) tag = d # ds"
  shows "tagged_time nd description = Inr (decimal_of (py_decimal nd) d)"
proof -
  have "d \<in> set (findall (udigits_re nd) tag)" using assms(2) by simp
  then have "d \<noteq> [] \<and> (\<forall>c \<in> set d. udigit nd c)" by (rule findall_udigits)
  then have "py_int_u nd d = Inr (decimal_of (py_decimal nd) d)"
    by (simp add: py_int_u_digits)
  with assms show ?thesis by (simp add: tagged_time_def item_at_def)
qed

lemma parse_cooldown_result:
  assumes "tagged_time nd description = Inr ts"
    and "min_wall \<le> ts + tz ts" and "ts + tz ts \<le> max_wall"
  shows "parse_cooldown nd tz clock description
         = Inr \<lparr>success = False, death = None, gain = Some Map.empty,
                loss = Some Default_loss,
                cooldown = Some (py_round (total_seconds
                                   ((ts + tz ts) * 1000000 - datetime_now tz clock)) 2)\<rparr>"
  using assms
  by (simp add: parse_cooldown_def fromtimestamp_def Let_def CommandResult_cooldown)

lemma parse_cooldown_range:
  assumes "tagged_time nd description = Inr ts"
    and "\<not> (min_wall \<le> ts + tz ts \<and> ts + tz ts \<le> max_wall)"
  shows "parse_cooldown nd tz clock description = Inl TimestampError"
  using assms by (auto simp: parse_cooldown_def fromtimestamp_def Let_def)

lemma parse_cooldown_InrD:
  assumes "parse_cooldown nd tz clock description = Inr r"
  shows "\<exists>ts. tagged_time nd description = Inr ts
           \<and> min_wall \<le> ts + tz ts \<and> ts + tz ts \<le> max_wall
           \<and> r = \<lparr>success = False, death = None, gain = Some Map.empty,
                  loss = Some Default_loss,
                  cooldown = Some (py_round (total_seconds
                                     ((ts + tz ts) * 1000000 - datetime_now tz clock)) 2)\<rparr>"
  using assms
  by (auto simp: parse_cooldown_def fromtimestamp_def Let_def CommandResult_cooldown
      split: sum.splits if_splits)

lemma same_offset_difference:
  assumes "tz ts = tz (clock div 1000000)"
  shows "(ts + tz ts) * 1000000 - datetime_now tz clock = ts * 1000000 - clock"
  using assms by (simp add: datetime_now_def algebra_simps)

lemma tagged_time_no_span: "findall tag_re description = [] \<Longrightarrow> tagged_time nd description = Inl IndexError"
  by (simp add: tagged_time_def item_at_def)

lemma tagged_time_no_digits:
  "findall tag_re description = tag # tags \<Longrightarrow> findall (udigits_re nd) tag = [] \<Longrightarrow>
     tagged_time nd description = Inl IndexError"
  by (simp add: tagged_time_def item_at_def)

lemma cooldown_reply_time: "tagged_time nd cooldown_reply = Inr 1700000000"
  by (simp add: tagged_time_def item_at_def cooldown_reply_tags time_tag_digits time_tag_int)

lemma cooldown_reply_result:
  "parse_cooldown nd utc 1699999990000000 cooldown_reply
   = Inr \<lparr>success = False, death = None, gain = Some Map.empty, loss = Some Default_loss,
          cooldown = Some 10\<rparr>"
  using parse_cooldown_result [where tz = utc, OF cooldown_reply_time, of nd 1699999990000000]
  by (simp add: utc_def min_wall_def max_wall_def datetime_now_def ten_seconds)

lemma mention_reply_values:
  "contains (str_of ''<t:1700000000:R>'') cooldown_mention_reply
   \<and> check_cooldown cooldown_mention_reply
   \<and> tagged_time ascii_only cooldown_mention_reply = Inr 1
   \<and> check_cooldown cooldown_dst_reply
   \<and> tagged_time ascii_only cooldown_dst_reply = Inr 1698541205"
  by code_simp

lemma mention_seconds: "py_round (total_seconds (- 1699999989000000)) 2 = - 1699999989"
  by code_simp

lemma dst_seconds: "py_round (total_seconds (- 3590000000)) 2 = - 3590"
  by code_simp

text \<open>
  C6, as stated, fails in two ways. The first reply contains \<open><t:1700000000:R>\<close> and is
  a cooldown notice, but its first span is the mention \<open><@1>\<close>: at the epoch second
  1699999990, in a zone without offset, the cooldown is -1699999989.0, not 10.0. The
  second reply is read in the zone of Berlin five seconds before daylight saving ended
  in 2023; its tag is ten seconds after the clock, and the cooldown is -3590.0, because
  the two wall-clock readings are taken with different offsets.
\<close>

theorem cooldown_value_counterexample:
  "contains (str_of ''<t:1700000000:R>'') cooldown_mention_reply
   \<and> check_cooldown cooldown_mention_reply
   \<and> parse_cooldown ascii_only utc 1699999990000000 cooldown_mention_reply
       = Inr \<lparr>success = False, death = None, gain = Some Map.empty,
              loss = Some Default_loss, cooldown = Some (- 1699999989)\<rparr>
   \<and> check_cooldown cooldown_dst_reply
   \<and> tagged_time ascii_only cooldown_dst_reply = Inr 1698541205
   \<and> 1698541205 * 1000000 - 1698541195000000 = (10000000 :: int)
   \<and> parse_cooldown ascii_only berlin 1698541195000000 cooldown_dst_reply
       = Inr \<lparr>success = False, death = None, gain = Some Map.empty,
              loss = Some Default_loss, cooldown = Some (- 3590)\<rparr>"
proof -
  note v = mention_reply_values
  have a: "parse_cooldown ascii_only utc 1699999990000000 cooldown_mention_reply
       = Inr \<lparr>success = False, death = None, gain = Some Map.empty,
              loss = Some Default_loss, cooldown = Some (- 1699999989)\<rparr>"
    using parse_cooldown_result [of ascii_only cooldown_mention_reply 1 utc 1699999990000000] v
    by (simp add: utc_def min_wall_def max_wall_def datetime_now_def mention_seconds)
  have b: "parse_cooldown ascii_only berlin 1698541195000000 cooldown_dst_reply
       = Inr \<lparr>success = False, death = None, gain = Some Map.empty,
              loss = Some Default_loss, cooldown = Some (- 3590)\<rparr>"
    using parse_cooldown_result [of ascii_only cooldown_dst_reply 1698541205 berlin
        1698541195000000] v
    by (simp add: berlin_def min_wall_def max_wall_def datetime_now_def dst_seconds)
  from v a b show ?thesis by simp
qed

text \<open>
  C6, amended. \<open>Parser.cooldown\<close> takes the first \<open><...>\<close> span of the text and the
  first run of decimal digits in it and reads the run as a unix timestamp. When the
  timestamp has a local datetime it returns no success, an empty gain and, as cooldown,
  the seconds between the wall-clock reading of the tagged time and the wall-clock
  reading of now, rounded to two decimals: the double nearest to a number of hundredths
  that is within half a hundredth of the difference. Where the zone has the same offset
  at both times these are the seconds from now to the tagged time. Without a span, or
  without digits in the first span, it raises IndexError, and where the timestamp has no
  local datetime it raises the error of \<open>fromtimestamp\<close>. For a text whose first span
  is \<open><t:1700000000:R>\<close>, at the epoch second 1699999990 and with one offset at both
  times, the cooldown is 10.0.
\<close>

theorem cooldown_value:
  "(findall tag_re description = [] \<longrightarrow>
      parse_cooldown nd tz clock description = Inl IndexError)
   \<and> (findall tag_re description = tag # tags \<longrightarrow> findall (udigits_re nd) tag = [] \<longrightarrow>
      parse_cooldown nd tz clock description = Inl IndexError)
   \<and> (findall tag_re description = tag # tags \<longrightarrow>
      findall (udigits_re nd) tag = d # ds \<longrightarrow>
      \<not> (min_wall \<le> decimal_of (py_decimal nd) d + tz (decimal_of (py_decimal nd) d)
         \<and> decimal_of (py_decimal nd) d + tz (decimal_of (py_decimal nd) d) \<le> max_wall) \<longrightarrow>
      parse_cooldown nd tz clock description = Inl TimestampError)
   \<and> (findall tag_re description = tag # tags \<longrightarrow>
      findall (udigits_re nd) tag = d # ds \<longrightarrow>
      min_wall \<le> decimal_of (py_decimal nd) d + tz (decimal_of (py_decimal nd) d) \<longrightarrow>
      decimal_of (py_decimal nd) d + tz (decimal_of (py_decimal nd) d) \<le> max_wall \<longrightarrow>
      (\<exists>c k. parse_cooldown nd tz clock description
               = Inr \<lparr>success = False, death = None, gain = Some Map.empty,
                      loss = Some Default_loss, cooldown = Some c\<rparr>
         \<and> c = py_round (total_seconds
                  ((decimal_of (py_decimal nd) d + tz (decimal_of (py_decimal nd) d)) * 1000000
                   - datetime_now tz clock)) 2
         \<and> c = binary64 (of_int k / 100)
         \<and> \<bar>of_int k / 100
             - total_seconds
                 ((decimal_of (py_decimal nd) d + tz (decimal_of (py_decimal nd) d)) * 1000000
                  - datetime_now tz clock)\<bar> \<le> 1 / 200
         \<and> (tz (decimal_of (py_decimal nd) d) = tz (clock div 1000000) \<longrightarrow>
              c = py_round (total_seconds
                    (decimal_of (py_decimal nd) d * 1000000 - clock)) 2)))
   \<and> (findall tag_re description = str_of ''t:1700000000:R'' # tags \<longrightarrow>
      tz 1700000000 = tz 1699999990 \<longrightarrow>
      min_wall \<le> 1700000000 + tz 1700000000 \<longrightarrow> 1700000000 + tz 1700000000 \<le> max_wall \<longrightarrow>
        parse_cooldown nd tz 1699999990000000 description
        = Inr \<lparr>success = False, death = None, gain = Some Map.empty,
               loss = Some Default_loss, cooldown = Some 10\<rparr>)"
proof (intro conjI impI)
  assume "findall tag_re description = []"
  then show "parse_cooldown nd tz clock description = Inl IndexError"
    by (simp add: parse_cooldown_def tagged_time_no_span)
next
  assume "findall tag_re description = tag # tags" "findall (udigits_re nd) tag = []"
  then show "parse_cooldown nd tz clock description = Inl IndexError"
    by (simp add: parse_cooldown_def tagged_time_no_digits)
next
  let ?t = "decimal_of (py_decimal nd) d"
  assume a: "findall tag_re description = tag # tags"
    "findall (udigits_re nd) tag = d # ds"
    "\<not> (min_wall \<le> ?t + tz ?t \<and> ?t + tz ?t \<le> max_wall)"
  from parse_cooldown_range [where tz = tz, OF tagged_time_digits [OF a(1) a(2)] a(3)]
  show "parse_cooldown nd tz clock description = Inl TimestampError" .
next
  let ?t = "decimal_of (py_decimal nd) d"
  assume a: "findall tag_re description = tag # tags"
    "findall (udigits_re nd) tag = d # ds"
    "min_wall \<le> ?t + tz ?t" "?t + tz ?t \<le> max_wall"
  let ?x = "total_seconds ((?t + tz ?t) * 1000000 - datetime_now tz clock)"
  from py_round_hundredths [of ?x] obtain k
    where k: "py_round ?x 2 = binary64 (of_int k / 100)" "\<bar>of_int k / 100 - ?x\<bar> \<le> 1 / 200"
    by blast
  have s: "tz ?t = tz (clock div 1000000) \<longrightarrow>
             py_round ?x 2 = py_round (total_seconds (?t * 1000000 - clock)) 2"
  proof
    assume "tz ?t = tz (clock div 1000000)"
    from same_offset_difference [OF this]
    show "py_round ?x 2 = py_round (total_seconds (?t * 1000000 - clock)) 2"
      by (simp only:)
  qed
  from parse_cooldown_result [where tz = tz, OF tagged_time_digits [OF a(1) a(2)] a(3) a(4),
      of clock] k s
  show "\<exists>c k. parse_cooldown nd tz clock description
               = Inr \<lparr>success = False, death = None, gain = Some Map.empty,
                      loss = Some Default_loss, cooldown = Some c\<rparr>
         \<and> c = py_round ?x 2 \<and> c = binary64 (of_int k / 100)
         \<and> \<bar>of_int k / 100 - ?x\<bar> \<le> 1 / 200
         \<and> (tz ?t = tz (clock div 1000000) \<longrightarrow>
              c = py_round (total_seconds (?t * 1000000 - clock)) 2)"
    by blast
next
  assume a: "findall tag_re description = str_of ''t:1700000000:R'' # tags"
    and o: "tz 1700000000 = tz 1699999990"
    and r: "min_wall \<le> 1700000000 + tz 1700000000" "1700000000 + tz 1700000000 \<le> max_wall"
  have t: "tagged_time nd description = Inr 1700000000"
    by (simp add: tagged_time_def item_at_def a time_tag_digits time_tag_int)
  have e: "(1700000000 + tz 1700000000) * 1000000 - datetime_now tz 1699999990000000
           = 10000000"
    using o by (simp add: datetime_now_def)
  from parse_cooldown_result [where tz = tz, OF t r, of 1699999990000000]
  show "parse_cooldown nd tz 1699999990000000 description
        = Inr \<lparr>success = False, death = None, gain = Some Map.empty,
               loss = Some Default_loss, cooldown = Some 10\<rparr>"
    by (simp only: e ten_seconds)
qed

lemma far_reply_values:
  "findall tag_re cooldown_far_reply = [str_of ''t:999999999999:R'']
   \<and> findall (udigits_re ascii_only) (str_of ''t:999999999999:R'') = [str_of ''999999999999'']
   \<and> decimal_of (py_decimal ascii_only) (str_of ''999999999999'') = 999999999999
   \<and> findall tag_re cooldown_no_digits_reply = [str_of ''t:soon:R'']
   \<and> findall (udigits_re ascii_only) (str_of ''t:soon:R'') = []
   \<and> findall tag_re unrelated_reply = []"
  by code_simp

theorem cooldown_value_witness:
  "findall tag_re cooldown_reply = str_of ''t:1700000000:R'' # []
   \<and> findall (udigits_re ascii_only) (str_of ''t:1700000000:R'') = str_of ''1700000000'' # []
   \<and> decimal_of (py_decimal ascii_only) (str_of ''1700000000'') = 1700000000
   \<and> cet 1700000000 = cet 1699999990
   \<and> min_wall \<le> 1700000000 + cet 1700000000 \<and> 1700000000 + cet 1700000000 \<le> max_wall
   \<and> check_cooldown cooldown_reply
   \<and> parse_cooldown ascii_only cet 1699999990000000 cooldown_reply
       = Inr \<lparr>success = False, death = None, gain = Some Map.empty,
              loss = Some Default_loss, cooldown = Some 10\<rparr>
   \<and> findall tag_re unrelated_reply = []
   \<and> parse_cooldown ascii_only cet 1699999990000000 unrelated_reply = Inl IndexError
   \<and> findall tag_re cooldown_no_digits_reply = [str_of ''t:soon:R'']
   \<and> findall (udigits_re ascii_only) (str_of ''t:soon:R'') = []
   \<and> parse_cooldown ascii_only cet 1699999990000000 cooldown_no_digits_reply = Inl IndexError
   \<and> findall tag_re cooldown_far_reply = [str_of ''t:999999999999:R'']
   \<and> findall (udigits_re ascii_only) (str_of ''t:999999999999:R'') = [str_of ''999999999999'']
   \<and> \<not> 999999999999 + cet 999999999999 \<le> max_wall
   \<and> parse_cooldown ascii_only cet 1699999990000000 cooldown_far_reply = Inl TimestampError"
proof -
  note v = far_reply_values
  have d: "decimal_of (py_decimal ascii_only) (str_of ''1700000000'') = 1700000000"
    by code_simp
  have c: "cet 1700000000 = cet 1699999990" "min_wall \<le> 1700000000 + cet 1700000000"
    "1700000000 + cet 1700000000 \<le> max_wall" "\<not> 999999999999 + cet 999999999999 \<le> max_wall"
    by (simp_all add: cet_def min_wall_def max_wall_def)
  from cooldown_value [of cooldown_reply ascii_only cet 1699999990000000
      "str_of ''t:1700000000:R''" "[]" "str_of ''1700000000''" "[]"]
    cooldown_reply_tags c
  have "parse_cooldown ascii_only cet 1699999990000000 cooldown_reply
        = Inr \<lparr>success = False, death = None, gain = Some Map.empty,
               loss = Some Default_loss, cooldown = Some 10\<rparr>"
    by blast
  moreover from cooldown_value [of unrelated_reply ascii_only cet 1699999990000000] v
  have "parse_cooldown ascii_only cet 1699999990000000 unrelated_reply = Inl IndexError"
    by blast
  moreover from cooldown_value [of cooldown_no_digits_reply ascii_only cet 1699999990000000
      "str_of ''t:soon:R''" "[]"] v
  have "parse_cooldown ascii_only cet 1699999990000000 cooldown_no_digits_reply
        = Inl IndexError"
    by simp
  moreover from cooldown_value [of cooldown_far_reply ascii_only cet 1699999990000000
      "str_of ''t:999999999999:R''" "[]" "str_of ''999999999999''" "[]"] v c
  have "parse_cooldown ascii_only cet 1699999990000000 cooldown_far_reply
        = Inl TimestampError"
    by simp
  ultimately show ?thesis
    using cooldown_reply_tags time_tag_digits [of ascii_only] d c cooldown_reply_check v
    by simp
qed

text \<open>
  C7, as stated, fails: when the tagged time is before now the cooldown is negative.
  Ten seconds after the time of its tag, the notice gives the cooldown -10.0.
\<close>

theorem cooldown_negative_counterexample:
  "parse_cooldown ascii_only utc 1700000010000000 cooldown_reply
   = Inr \<lparr>success = False, death = None, gain = Some Map.empty, loss = Some Default_loss,
          cooldown = Some (- 10)\<rparr>
   \<and> (- 10 :: rat) < 0"
  using parse_cooldown_result [where tz = utc, OF cooldown_reply_time,
      of ascii_only 1700000010000000]
  by (simp add: utc_def min_wall_def max_wall_def datetime_now_def minus_ten_seconds)

text \<open>
  C7, amended. Whenever \<open>Parser.cooldown\<close> returns, the cooldown is set to the seconds
  between the wall-clock reading of the tagged time and the wall-clock reading of now,
  rounded to two decimals. It is non-negative when the tagged reading is not before the
  reading of now and not positive when it is not after. Where the zone has the same
  offset at both times, the cooldown is the rounded seconds from now to the tagged time,
  non-negative when the tagged time is not before now and not positive when it is not
  after now.
\<close>

theorem cooldown_sign:
  assumes "parse_cooldown nd tz clock description = Inr r"
  shows "\<exists>ts c. tagged_time nd description = Inr ts \<and> cooldown r = Some c
           \<and> c = py_round (total_seconds
                    ((ts + tz ts) * 1000000 - datetime_now tz clock)) 2
           \<and> (datetime_now tz clock \<le> (ts + tz ts) * 1000000 \<longrightarrow> 0 \<le> c)
           \<and> ((ts + tz ts) * 1000000 \<le> datetime_now tz clock \<longrightarrow> c \<le> 0)
           \<and> (tz ts = tz (clock div 1000000) \<longrightarrow>
                c = py_round (total_seconds (ts * 1000000 - clock)) 2
                \<and> (clock \<le> ts * 1000000 \<longrightarrow> 0 \<le> c)
                \<and> (ts * 1000000 \<le> clock \<longrightarrow> c \<le> 0))"
proof -
  from parse_cooldown_InrD [OF assms] obtain ts
    where ts: "tagged_time nd description = Inr ts"
      and r: "cooldown r = Some (py_round (total_seconds
                ((ts + tz ts) * 1000000 - datetime_now tz clock)) 2)"
    by auto
  let ?u = "(ts + tz ts) * 1000000 - datetime_now tz clock"
  let ?c = "py_round (total_seconds ?u) 2"
  have pos: "0 \<le> ?u \<Longrightarrow> 0 \<le> ?c"
    by (intro py_round_nonneg total_seconds_nonneg)
  have neg: "?u \<le> 0 \<Longrightarrow> ?c \<le> 0"
    by (intro py_round_nonpos total_seconds_nonpos)
  have same: "tz ts = tz (clock div 1000000) \<Longrightarrow> ?u = ts * 1000000 - clock"
    by (rule same_offset_difference)
  have "datetime_now tz clock \<le> (ts + tz ts) * 1000000 \<longrightarrow> 0 \<le> ?c"
    using pos by simp
  moreover have "(ts + tz ts) * 1000000 \<le> datetime_now tz clock \<longrightarrow> ?c \<le> 0"
    using neg by simp
  moreover have "tz ts = tz (clock div 1000000) \<longrightarrow>
      ?c = py_round (total_seconds (ts * 1000000 - clock)) 2
      \<and> (clock \<le> ts * 1000000 \<longrightarrow> 0 \<le> ?c) \<and> (ts * 1000000 \<le> clock \<longrightarrow> ?c \<le> 0)"
  proof (intro impI conjI)
    assume o: "tz ts = tz (clock div 1000000)"
    show "?c = py_round (total_seconds (ts * 1000000 - clock)) 2"
      by (simp only: same [OF o])
    show "0 \<le> ?c" if "clock \<le> ts * 1000000"
    proof -
      have "0 \<le> ?u" unfolding same [OF o] using that by simp
      then show ?thesis by (rule pos)
    qed
    show "?c \<le> 0" if "ts * 1000000 \<le> clock"
    proof -
      have "?u \<le> 0" unfolding same [OF o] using that by simp
      then show ?thesis by (rule neg)
    qed
  qed
  ultimately show ?thesis using ts r by blast
qed

lemma cooldown_late_result:
  "parse_cooldown nd utc 1700000010000000 cooldown_reply
   = Inr \<lparr>success = False, death = None, gain = Some Map.empty, loss = Some Default_loss,
          cooldown = Some (- 10)\<rparr>"
  using parse_cooldown_result [where tz = utc, OF cooldown_reply_time, of nd 1700000010000000]
  by (simp add: utc_def min_wall_def max_wall_def datetime_now_def minus_ten_seconds)

theorem cooldown_sign_witness:
  "parse_cooldown ascii_only utc 1699999990000000 cooldown_reply
   = Inr \<lparr>success = False, death = None, gain = Some Map.empty, loss = Some Default_loss,
          cooldown = Some 10\<rparr>
   \<and> tagged_time ascii_only cooldown_reply = Inr 1700000000
   \<and> utc 1700000000 = utc (1699999990000000 div 1000000)
   \<and> (1699999990000000 :: int) \<le> 1700000000 * 1000000
   \<and> py_round (total_seconds (1700000000 * 1000000 - 1699999990000000)) 2 = 10
   \<and> (0 :: rat) \<le> 10
   \<and> parse_cooldown ascii_only utc 1700000010000000 cooldown_reply
     = Inr \<lparr>success = False, death = None, gain = Some Map.empty, loss = Some Default_loss,
            cooldown = Some (- 10)\<rparr>
   \<and> utc 1700000000 = utc (1700000010000000 div 1000000)
   \<and> (1700000000 :: int) * 1000000 \<le> 1700000010000000
   \<and> py_round (total_seconds (1700000000 * 1000000 - 1700000010000000)) 2 = - 10
   \<and> (- 10 :: rat) \<le> 0"
proof -
  note res = cooldown_reply_result [of ascii_only]
  note late = cooldown_late_result [of ascii_only]
  from cooldown_sign [OF res] cooldown_reply_time [of ascii_only]
  have "py_round (total_seconds (1700000000 * 1000000 - 1699999990000000)) 2 = 10"
    by (auto simp: utc_def)
  moreover from cooldown_sign [OF late] cooldown_reply_time [of ascii_only]
  have "py_round (total_seconds (1700000000 * 1000000 - 1700000010000000)) 2 = - 10"
    by (auto simp: utc_def)
  ultimately show ?thesis
    using res late cooldown_reply_time [of ascii_only] by (simp add: utc_def)
qed

section \<open>Cooldown and outcome\<close>

lemma beg_cooldown: "cooldown (beg description) = None"
  by (simp add: beg_def Let_def CommandResult_def)

lemma search_cooldown: "cooldown (search description) = None"
  by (simp add: search_def Let_def CommandResult_def split: prod.splits)

lemma common1_cooldown: "cooldown (common1 description) = None"
  by (simp add: common1_def Let_def CommandResult_def split: prod.splits)

lemma crime_cooldown: "cooldown (crime description) = None"
  by (simp add: crime_def Let_def CommandResult_def)

lemma postmemes_cooldown: "postmemes description = Inr r \<Longrightarrow> cooldown r = None"
  by (auto simp: postmemes_def Let_def CommandResult_def split: sum.splits if_splits)

lemma buy_cooldown: "buy description item quantity = Inr r \<Longrightarrow> cooldown r = None"
  by (auto simp: buy_def Let_def CommandResult_def split: sum.splits if_splits)

lemma sell_cooldown: "sell description item quantity = Inr r \<Longrightarrow> cooldown r = None"
  by (auto simp: sell_def Let_def CommandResult_def split: sum.splits if_splits)

text \<open>
  A result of the parsing engine with a cooldown comes from \<open>Parser.cooldown\<close>: it has
  no success, an empty gain, and as loss the default dict.
\<close>

lemma cooldown_result_shape:
  assumes "produced nd tz clock r" and "cooldown r \<noteq> None"
  shows "\<not> success r \<and> gain r = Some Map.empty \<and> loss r = Some Default_loss"
  using assms
proof (cases rule: produced.cases)
  case (by_cooldown description)
  from parse_cooldown_InrD [OF by_cooldown] show ?thesis by auto
qed (auto simp: beg_cooldown search_cooldown common1_cooldown crime_cooldown
    dest: postmemes_cooldown buy_cooldown sell_cooldown)

lemma unrelated_beg_loss: "loss (beg unrelated_reply) = Some Default_loss"
  by (simp add: beg_def Let_def CommandResult_def)

text \<open>
  C5 fails on the code, by the default dict. A caller takes the result of \<open>beg\<close> on a
  reply, which was built without a loss, and writes \<open>r.loss["coins"] = 5\<close>; the write
  goes to the default dict. The result of \<open>Parser.cooldown\<close> on a notice, read
  afterwards, has the cooldown 10.0, no success and an empty gain, and its loss is the
  same default dict, which now holds \<open>{"coins": 5}\<close>.
\<close>

theorem cooldown_shared_loss:
  "loss (beg unrelated_reply) = Some Default_loss
   \<and> parse_cooldown ascii_only utc 1699999990000000 cooldown_reply
       = Inr \<lparr>success = False, death = None, gain = Some Map.empty,
              loss = Some Default_loss, cooldown = Some 10\<rparr>
   \<and> contents (setitem Map.empty Default_loss coins_key (VInt 5)) Default_loss
       = [coins_key \<mapsto> VInt 5]
   \<and> contents (setitem Map.empty Default_loss coins_key (VInt 5)) Default_loss coins_key
       \<noteq> Map.empty coins_key"
  by (simp add: unrelated_beg_loss cooldown_reply_result contents_def setitem_def)

theorem cooldown_shared_loss_witness:
  "\<exists>r0 r. loss (beg unrelated_reply) = Some r0
     \<and> parse_cooldown ascii_only utc 1699999990000000 cooldown_reply = Inr r
     \<and> cooldown r = Some 10 \<and> \<not> success r \<and> gain r = Some Map.empty
     \<and> loss r = Some r0
     \<and> contents (setitem Map.empty r0 coins_key (VInt 5)) r0 coins_key = Some (VInt 5)"
  using cooldown_shared_loss by (simp add: contents_def setitem_def)

section \<open>The first integer of a text\<close>

lemma rev_upt_from_1: "0 < n \<Longrightarrow> rev [Suc 0 ..< Suc n] = n # rev [Suc 0 ..< n]"
  by simp

lemma rmatch_Plus:
  "rmatch [Plus a] s = (if takeWhile a s = [] then None else Some (takeWhile a s, None))"
proof (cases "takeWhile a s = []")
  case True
  then show ?thesis by simp
next
  case False
  then have n: "0 < length (takeWhile a s)" by simp
  have t: "take (length (takeWhile a s)) s = takeWhile a s"
    by (rule takeWhile_eq_take [symmetric])
  have "rmatch [Plus a] s
        = first_some (\<lambda>k. Some (take k s, None)) (rev [Suc 0 ..< Suc (length (takeWhile a s))])"
    by simp
  also have "\<dots> = Some (takeWhile a s, None)"
    unfolding rev_upt_from_1 [OF n] by (simp add: t)
  finally show ?thesis using False by simp
qed

lemma scan_num_first:
  "item_at (scan num_re 0 s) 0
   = (if first_number s = [] then Inl IndexError else Inr (first_number s))"
proof (induction s)
  case Nil
  then show ?case by (simp add: item_at_def first_number_def)
next
  case (Cons c cs)
  show ?case
  proof (cases "digit09 c")
    case True
    then have f: "first_number (c # cs) = c # takeWhile digit09 cs"
      by (simp add: first_number_def)
    from True have "rmatch num_re (c # cs) = Some (c # takeWhile digit09 cs, None)"
      unfolding num_re_def rmatch_Plus by simp
    then show ?thesis by (simp add: f item_at_def)
  next
    case False
    then have f: "first_number (c # cs) = first_number cs"
      by (simp add: first_number_def)
    from False have "rmatch num_re (c # cs) = None"
      unfolding num_re_def rmatch_Plus by simp
    then show ?thesis using Cons.IH by (simp add: f)
  qed
qed

lemma findall_num_first:
  "item_at (findall num_re s) 0
   = (if first_number s = [] then Inl IndexError else Inr (first_number s))"
  unfolding findall_def by (rule scan_num_first)

lemma first_number_digits: "\<forall>c \<in> set (first_number s). digit09 c"
  by (auto simp: first_number_def dest: set_takeWhileD)

lemma first_number_int:
  "first_number s \<noteq> [] \<Longrightarrow>
     py_int (first_number s) = Inr (decimal_of ascii_decimal (first_number s))"
  by (rule py_int_digits) (simp_all add: first_number_digits)

lemma price_of_span:
  "(case item_at (findall num_re b) 0 of Inl e \<Rightarrow> Inl e | Inr d \<Rightarrow> py_int d)
   = (if first_number b = [] then Inl IndexError
      else Inr (decimal_of ascii_decimal (first_number b)))"
  by (simp add: findall_num_first first_number_int)

section \<open>buy and sell\<close>

lemma buy_confirmed:
  assumes "contains (str_of ''bought'') description"
    and "contains (str_of ''and paid'') description"
  shows "buy description item quantity
         = (case item_at (findall bold_re (replace (str_of '','') [] description)) 1 of
              Inl e \<Rightarrow> Inl e
            | Inr b \<Rightarrow>
                if first_number b = [] then Inl IndexError
                else Inr \<lparr>success = True, death = None,
                          gain = Some [KInt quantity \<mapsto> VStr item],
                          loss = Some (Dict [coins_key \<mapsto> VInt (decimal_of ascii_decimal (first_number b))]),
                          cooldown = None\<rparr>)"
  using assms
  by (simp add: buy_def Let_def findall_num_first first_number_int CommandResult_def
      split: sum.splits)

lemma sell_confirmed:
  assumes "contains (str_of ''sold'') description"
    and "contains (str_of ''and got paid'') description"
  shows "sell description item quantity
         = (case item_at (findall bold_re (replace (str_of '','') [] description)) 0 of
              Inl e \<Rightarrow> Inl e
            | Inr b \<Rightarrow>
                if first_number b = [] then Inl IndexError
                else Inr \<lparr>success = True, death = None,
                          gain = Some [coins_key \<mapsto> VInt (decimal_of ascii_decimal (first_number b))],
                          loss = Some (Dict [KInt quantity \<mapsto> VStr item]),
                          cooldown = None\<rparr>)"
  using assms
  by (simp add: sell_def Let_def findall_num_first first_number_int CommandResult_def
      split: sum.splits)

text \<open>
  C10. On a reply with the confirmation phrases, \<open>buy\<close> reports as loss the first integer
  (the leftmost maximal run of digits, commas removed) of the second bold span, and \<open>sell\<close>
  reports as gain the first integer of the first bold span; and they return a result only
  when that span exists and has an integer.
\<close>

theorem buy_sell_price:
  "(contains (str_of ''bought'') description \<and> contains (str_of ''and paid'') description \<longrightarrow>
      (findall bold_re (replace (str_of '','') [] description) = b0 # b1 # bs \<longrightarrow>
       first_number b1 \<noteq> [] \<longrightarrow>
         buy description item quantity
         = Inr \<lparr>success = True, death = None, gain = Some [KInt quantity \<mapsto> VStr item],
                loss = Some (Dict [coins_key \<mapsto> VInt (decimal_of ascii_decimal (first_number b1))]),
                cooldown = None\<rparr>)
      \<and> (\<forall>r. buy description item quantity = Inr r \<longrightarrow>
            (\<exists>c0 c1 cs. findall bold_re (replace (str_of '','') [] description) = c0 # c1 # cs
               \<and> first_number c1 \<noteq> [])))
   \<and> (contains (str_of ''sold'') description \<and> contains (str_of ''and got paid'') description \<longrightarrow>
      (findall bold_re (replace (str_of '','') [] description) = b0 # bs' \<longrightarrow>
       first_number b0 \<noteq> [] \<longrightarrow>
         sell description item quantity
         = Inr \<lparr>success = True, death = None,
                gain = Some [coins_key \<mapsto> VInt (decimal_of ascii_decimal (first_number b0))],
                loss = Some (Dict [KInt quantity \<mapsto> VStr item]), cooldown = None\<rparr>)
      \<and> (\<forall>r. sell description item quantity = Inr r \<longrightarrow>
            (\<exists>c0 cs. findall bold_re (replace (str_of '','') [] description) = c0 # cs
               \<and> first_number c0 \<noteq> [])))"
proof (intro conjI impI allI)
  assume "contains (str_of ''bought'') description \<and> contains (str_of ''and paid'') description"
  then have b: "contains (str_of ''bought'') description"
    "contains (str_of ''and paid'') description" by simp_all
  note eq = buy_confirmed [OF b, of item quantity]
  {
    assume "findall bold_re (replace (str_of '','') [] description) = b0 # b1 # bs"
      and "first_number b1 \<noteq> []"
    then show "buy description item quantity
         = Inr \<lparr>success = True, death = None, gain = Some [KInt quantity \<mapsto> VStr item],
                loss = Some (Dict [coins_key \<mapsto> VInt (decimal_of ascii_decimal (first_number b1))]),
                cooldown = None\<rparr>"
      by (simp add: eq item_at_def)
  }
  {
    fix r
    assume "buy description item quantity = Inr r"
    then show "\<exists>c0 c1 cs. findall bold_re (replace (str_of '','') [] description) = c0 # c1 # cs
               \<and> first_number c1 \<noteq> []"
      unfolding eq
      by (cases "findall bold_re (replace (str_of '','') [] description)";
          cases "tl (findall bold_re (replace (str_of '','') [] description))")
        (auto simp: item_at_def split: if_splits)
  }
next
  assume "contains (str_of ''sold'') description \<and> contains (str_of ''and got paid'') description"
  then have b: "contains (str_of ''sold'') description"
    "contains (str_of ''and got paid'') description" by simp_all
  note eq = sell_confirmed [OF b, of item quantity]
  {
    assume "findall bold_re (replace (str_of '','') [] description) = b0 # bs'"
      and "first_number b0 \<noteq> []"
    then show "sell description item quantity
         = Inr \<lparr>success = True, death = None,
                gain = Some [coins_key \<mapsto> VInt (decimal_of ascii_decimal (first_number b0))],
                loss = Some (Dict [KInt quantity \<mapsto> VStr item]), cooldown = None\<rparr>"
      by (simp add: eq item_at_def)
  }
  {
    fix r
    assume "sell description item quantity = Inr r"
    then show "\<exists>c0 cs. findall bold_re (replace (str_of '','') [] description) = c0 # cs
               \<and> first_number c0 \<noteq> []"
      unfolding eq
      by (cases "findall bold_re (replace (str_of '','') [] description)")
        (auto simp: item_at_def split: if_splits)
  }
qed

lemma buy_reply_phrases:
  "contains (str_of ''bought'') buy_reply \<and> contains (str_of ''and paid'') buy_reply"
  by code_simp

lemma buy_reply_spans:
  "findall bold_re (replace (str_of '','') [] buy_reply)
   = [str_of ''3 Apple'', price_span]"
  by code_simp

lemma buy_reply_number: "first_number price_span = str_of ''1200''"
  by code_simp

lemma decimal_1200: "decimal_of ascii_decimal (str_of ''1200'') = 1200"
  by code_simp

lemma sell_reply_phrases:
  "contains (str_of ''sold'') sell_reply \<and> contains (str_of ''and got paid'') sell_reply"
  by code_simp

lemma sell_reply_spans:
  "findall bold_re (replace (str_of '','') [] sell_reply)
   = [price_span, str_of ''it'']"
  by code_simp

theorem buy_sell_price_witness:
  "contains (str_of ''bought'') buy_reply \<and> contains (str_of ''and paid'') buy_reply
   \<and> findall bold_re (replace (str_of '','') [] buy_reply)
       = str_of ''3 Apple'' # price_span # []
   \<and> first_number price_span = str_of ''1200''
   \<and> buy buy_reply (str_of ''apple'') 3
       = Inr \<lparr>success = True, death = None, gain = Some [KInt 3 \<mapsto> VStr (str_of ''apple'')],
              loss = Some (Dict [coins_key \<mapsto> VInt 1200]), cooldown = None\<rparr>
   \<and> contains (str_of ''sold'') sell_reply \<and> contains (str_of ''and got paid'') sell_reply
   \<and> findall bold_re (replace (str_of '','') [] sell_reply)
       = price_span # str_of ''it'' # []
   \<and> sell sell_reply (str_of ''apple'') 3
       = Inr \<lparr>success = True, death = None, gain = Some [coins_key \<mapsto> VInt 1200],
              loss = Some (Dict [KInt 3 \<mapsto> VStr (str_of ''apple'')]), cooldown = None\<rparr>"
proof -
  have n: "first_number price_span \<noteq> []"
    by code_simp
  note t = buy_sell_price [of buy_reply "str_of ''3 Apple''" "price_span" "[]"
      "str_of ''apple''" 3 "[]"]
  note u = buy_sell_price [of sell_reply "price_span" "[]" "[]"
      "str_of ''apple''" 3 "[str_of ''it'']"]
  have "buy buy_reply (str_of ''apple'') 3
       = Inr \<lparr>success = True, death = None, gain = Some [KInt 3 \<mapsto> VStr (str_of ''apple'')],
              loss = Some (Dict [coins_key \<mapsto> VInt 1200]), cooldown = None\<rparr>"
    using t buy_reply_phrases buy_reply_spans n
    by (simp only: buy_reply_number decimal_1200) blast
  moreover have "sell sell_reply (str_of ''apple'') 3
       = Inr \<lparr>success = True, death = None, gain = Some [coins_key \<mapsto> VInt 1200],
              loss = Some (Dict [KInt 3 \<mapsto> VStr (str_of ''apple'')]), cooldown = None\<rparr>"
    using u sell_reply_phrases sell_reply_spans n
    by (simp only: buy_reply_number decimal_1200) blast
  ultimately show ?thesis
    using buy_reply_phrases buy_reply_spans sell_reply_phrases sell_reply_spans
      buy_reply_number
    by simp
qed

section \<open>The coin amount\<close>

lemma rmatch_One_SomeD:
  "rmatch (One a # ts) s = Some (w, g) \<Longrightarrow>
     \<exists>c cs w'. s = c # cs \<and> a c \<and> rmatch ts cs = Some (w', g) \<and> w = c # w'"
  by (cases s) (auto split: if_splits option.splits)

lemma rmatch_Plus_SomeD:
  assumes "rmatch (Plus a # ts) s = Some (w, g)"
  shows "\<exists>k w'. 1 \<le> k \<and> k \<le> length (takeWhile a s) \<and> rmatch ts (drop k s) = Some (w', g)
           \<and> w = take k s @ w'"
proof -
  let ?f = "\<lambda>k. case rmatch ts (drop k s) of None \<Rightarrow> None
             | Some (w, g) \<Rightarrow> Some (take k s @ w, if is_group (Plus a) then Some (take k s) else g)"
  have "rmatch (Plus a # ts) s = first_some ?f (counts (Plus a) s)"
    by (rule rmatch.simps(2))
  with assms have "first_some ?f (counts (Plus a) s) = Some (w, g)"
    by (simp only:)
  from first_some_SomeD [OF this] obtain k
    where k: "k \<in> set (counts (Plus a) s)" and f: "?f k = Some (w, g)"
    by blast
  from k have "1 \<le> k \<and> k \<le> length (takeWhile a s)"
    by (simp only: counts.simps set_rev set_upt) auto
  moreover from f obtain w' where "rmatch ts (drop k s) = Some (w', g)" "w = take k s @ w'"
    by (auto split: option.splits)
  ultimately show ?thesis by blast
qed

text \<open>A match of the coin pattern: the glyph between the asterisks, then digits.\<close>

lemma coin_match_shape:
  assumes "rmatch coin_re s = Some (w, g)"
  shows "g = None \<and> (\<exists>ds. ds \<noteq> [] \<and> (\<forall>c \<in> set ds. digit09 c)
                        \<and> w = [42, 42, glyph, 32] @ ds @ [42, 42])"
proof -
  from assms obtain c1 s1 w1 where 1: "chr CHR ''*'' c1" "w = c1 # w1"
    and r1: "rmatch [One (chr CHR ''*''), One glyph_chr, One (chr CHR '' ''), Plus digit09,
                     One (chr CHR ''*''), One (chr CHR ''*'')] s1 = Some (w1, g)"
    unfolding coin_re_def by (blast dest: rmatch_One_SomeD)
  from r1 obtain c2 s2 w2 where 2: "chr CHR ''*'' c2" "w1 = c2 # w2"
    and r2: "rmatch [One glyph_chr, One (chr CHR '' ''), Plus digit09,
                     One (chr CHR ''*''), One (chr CHR ''*'')] s2 = Some (w2, g)"
    by (blast dest: rmatch_One_SomeD)
  from r2 obtain c3 s3 w3 where 3: "glyph_chr c3" "w2 = c3 # w3"
    and r3: "rmatch [One (chr CHR '' ''), Plus digit09,
                     One (chr CHR ''*''), One (chr CHR ''*'')] s3 = Some (w3, g)"
    by (blast dest: rmatch_One_SomeD)
  from r3 obtain c4 s4 w4 where 4: "chr CHR '' '' c4" "w3 = c4 # w4"
    and r4: "rmatch [Plus digit09, One (chr CHR ''*''), One (chr CHR ''*'')] s4 = Some (w4, g)"
    by (blast dest: rmatch_One_SomeD)
  from rmatch_Plus_SomeD [OF r4] obtain k w5 where k: "1 \<le> k" "k \<le> length (takeWhile digit09 s4)"
    and 5: "w4 = take k s4 @ w5"
    and r5: "rmatch [One (chr CHR ''*''), One (chr CHR ''*'')] (drop k s4) = Some (w5, g)"
    by blast
  from r5 obtain c6 s6 w6 where 6: "chr CHR ''*'' c6" "w5 = c6 # w6"
    and r6: "rmatch [One (chr CHR ''*'')] s6 = Some (w6, g)"
    by (blast dest: rmatch_One_SomeD)
  from r6 obtain c7 s7 w7 where 7: "chr CHR ''*'' c7" "w6 = c7 # w7"
    and r7: "rmatch [] s7 = Some (w7, g)"
    by (blast dest: rmatch_One_SomeD)
  from r7 have e: "w7 = []" "g = None" by simp_all
  have "length (takeWhile digit09 s4) \<le> length s4" by (rule length_takeWhile_le)
  with k have ne: "take k s4 \<noteq> []" by auto
  have dg: "\<forall>c \<in> set (take k s4). digit09 c"
    by (rule take_takeWhile_all [OF k(2)])
  have "w = [42, 42, glyph, 32] @ take k s4 @ [42, 42]"
    using 1 2 3 4 5 6 7 e by (simp add: chr_def glyph_chr_def)
  with ne dg e show ?thesis by blast
qed

lemma coin_match_number:
  assumes "ds \<noteq> []" and "\<forall>c \<in> set ds. digit09 c"
  shows "first_number ([42, 42, glyph, 32] @ ds @ [42, 42]) = ds"
proof -
  have "takeWhile digit09 (ds @ [42, 42]) = ds"
    using assms(2) by (simp add: takeWhile_append2 digit09_def)
  moreover have "dropWhile (\<lambda>c. \<not> digit09 c) ([42, 42, glyph, 32] @ ds @ [42, 42]) = ds @ [42, 42]"
    using assms by (cases ds) (simp_all add: digit09_def glyph_def)
  ultimately show ?thesis by (simp only: first_number_def)
qed

text \<open>
  Where the coin pattern matches, the coin amount is read, neither index nor \<open>int\<close>
  fails, and the amount is the number of the first match.
\<close>

lemma coin_amount_value:
  assumes f: "findall coin_re t = m # ms"
  shows "coin_amount t = Inr (coin_value m)"
proof -
  from f have "m \<in> set (scan coin_re 0 t)" by (simp add: findall_def)
  from scan_sound [OF this] obtain s' w g
    where r: "rmatch coin_re s' = Some (w, g)" and m: "m = (case g of Some y \<Rightarrow> y | None \<Rightarrow> w)"
    by blast
  from coin_match_shape [OF r] m obtain ds
    where ds: "ds \<noteq> []" "\<forall>c \<in> set ds. digit09 c" "m = [42, 42, glyph, 32] @ ds @ [42, 42]"
    by auto
  have n: "first_number m = ds" unfolding ds(3) by (rule coin_match_number [OF ds(1) ds(2)])
  with ds(1) have "(case item_at (findall num_re m) 0 of Inl e \<Rightarrow> Inl e | Inr d \<Rightarrow> py_int d)
                   = Inr (decimal_of ascii_decimal ds)"
    by (simp only: price_of_span) simp
  then show ?thesis by (simp add: coin_amount_def f item_at_def coin_value_def n)
qed

lemma coin_amount_hit:
  assumes "findall coin_re t \<noteq> []"
  shows "\<exists>n. coin_amount t = Inr n"
proof -
  from assms obtain m ms where "findall coin_re t = m # ms"
    by (cases "findall coin_re t") auto
  from coin_amount_value [OF this] show ?thesis by blast
qed

lemma coins_try_value: "findall coin_re t = m # ms \<Longrightarrow> coins_try t = Some (coin_value m)"
  by (simp add: coins_try_def coin_amount_value)

lemma coins_try_miss: "findall coin_re t = [] \<Longrightarrow> coins_try t = None"
  by (simp add: coins_try_def coin_amount_def item_at_def)

lemma coin_amount_miss: "findall coin_re t = [] \<Longrightarrow> coin_amount t = Inl IndexError"
  by (simp add: coin_amount_def item_at_def)

lemma coins_try_hit: "findall coin_re t \<noteq> [] \<Longrightarrow> \<exists>n. coins_try t = Some n"
  using coin_amount_hit [of t] by (auto simp: coins_try_def)

section \<open>Misses\<close>

lemma beg_miss:
  assumes "findall coin_re (replace (str_of '','') [] description) = []"
    and "findall bold_re (replace (str_of '','') [] description) = []"
  shows "beg description = no_result"
  using assms
  by (simp add: beg_def Let_def coins_try_miss beg_item_try_def truthy_int_def item_at_def
      CommandResult_def no_result_def)

lemma crime_miss:
  assumes "findall coin_re (replace (str_of '','') [] description) = []"
    and "findall bold_re (replace (str_of '','') [] description) = []"
  shows "crime description = no_result"
  using assms
  by (simp add: crime_def Let_def coins_try_miss crime_item_try_def truthy_int_def item_at_def
      CommandResult_def no_result_def)

lemma search_miss:
  assumes "findall coin_re (replace (str_of '','') [] description) = []"
    and "findall qty_re (replace (str_of '','') [] description) = []"
  shows "search description = no_result"
  using assms
  by (simp add: search_def Let_def coin_amount_miss search_item_try_def item_at_def
      CommandResult_def no_result_def)

lemma common1_miss:
  assumes "findall star_re (replace (str_of '','') [] description) = []"
  shows "common1 description = no_result"
  using assms
  by (simp add: common1_def Let_def item_at_def CommandResult_def no_result_def)

lemma postmemes_miss:
  "\<not> contains (str_of ''**You Received'') description \<Longrightarrow> postmemes description = Inr no_result"
  by (simp add: postmemes_def Let_def CommandResult_def no_result_def)

lemma buy_miss:
  "\<not> (contains (str_of ''bought'') description \<and> contains (str_of ''and paid'') description) \<Longrightarrow>
     buy description item quantity
     = Inr \<lparr>success = False, death = None, gain = None, loss = None, cooldown = None\<rparr>"
  by (auto simp: buy_def CommandResult_def)

lemma sell_miss:
  "\<not> (contains (str_of ''sold'') description \<and> contains (str_of ''and got paid'') description) \<Longrightarrow>
     sell description item quantity
     = Inr \<lparr>success = False, death = None, gain = None, loss = None, cooldown = None\<rparr>"
  by (auto simp: sell_def CommandResult_def)

text \<open>
  With its phrases present, \<open>buy\<close> raises exactly when the second bold span or its
  number is missing, and \<open>sell\<close> exactly when the first bold span or its number is
  missing; the exception is IndexError.
\<close>

lemma buy_raises:
  assumes "contains (str_of ''bought'') description"
    and "contains (str_of ''and paid'') description"
  shows "(buy description item quantity = Inl e)
         \<longleftrightarrow> (e = IndexError
              \<and> (length (findall bold_re (replace (str_of '','') [] description)) < 2
                 \<or> first_number (findall bold_re (replace (str_of '','') [] description) ! 1) = []))"
  unfolding buy_confirmed [OF assms]
  by (auto simp: item_at_def)

lemma sell_raises:
  assumes "contains (str_of ''sold'') description"
    and "contains (str_of ''and got paid'') description"
  shows "(sell description item quantity = Inl e)
         \<longleftrightarrow> (e = IndexError
              \<and> (findall bold_re (replace (str_of '','') [] description) = []
                 \<or> first_number (findall bold_re (replace (str_of '','') [] description) ! 0) = []))"
  unfolding sell_confirmed [OF assms]
  by (auto simp: item_at_def)

lemma buy_no_price_phrases:
  "contains (str_of ''bought'') buy_no_price_reply
   \<and> contains (str_of ''and paid'') buy_no_price_reply"
  by code_simp

lemma buy_no_price_spans: "findall bold_re (replace (str_of '','') [] buy_no_price_reply) = []"
  by code_simp

text \<open>
  C4, as stated, fails: on a reply that has the two phrases of a purchase and no bold span,
  \<open>buy\<close> raises IndexError instead of returning.
\<close>

theorem buy_raises_counterexample:
  "contains (str_of ''bought'') buy_no_price_reply
   \<and> contains (str_of ''and paid'') buy_no_price_reply
   \<and> buy buy_no_price_reply apple 1 = Inl IndexError"
  using buy_no_price_phrases
  by (simp add: buy_def Let_def buy_no_price_spans item_at_def)

text \<open>
  C4, amended. An extractor that finds none of its signals returns without success and
  does not raise: \<open>beg\<close> and \<open>crime\<close> when the text has no coin amount and no bold span,
  \<open>search\<close> when it has no coin amount and no item quantity, \<open>common1\<close> when it has no
  \<open>**...*\<close> span, \<open>postmemes\<close> when it has no \<open>**You Received\<close>, each with an empty gain
  and the loss left to the default of the constructor; \<open>buy\<close> and \<open>sell\<close> when a
  confirmation phrase is missing, with gain and loss \<open>None\<close>. With its two phrases
  present, \<open>buy\<close> raises exactly when the text has no second bold span or that span has
  no number, and \<open>sell\<close> exactly when the text has no bold span or the first one has no
  number; what they raise is IndexError.
\<close>

theorem extractor_miss:
  "(findall coin_re (replace (str_of '','') [] description) = [] \<and>
    findall bold_re (replace (str_of '','') [] description) = [] \<longrightarrow>
      beg description = no_result \<and> crime description = no_result)
   \<and> (findall coin_re (replace (str_of '','') [] description) = [] \<and>
       findall qty_re (replace (str_of '','') [] description) = [] \<longrightarrow>
      search description = no_result)
   \<and> (findall star_re (replace (str_of '','') [] description) = [] \<longrightarrow>
      common1 description = no_result)
   \<and> (\<not> contains (str_of ''**You Received'') description \<longrightarrow>
      postmemes description = Inr no_result)
   \<and> (\<not> (contains (str_of ''bought'') description \<and> contains (str_of ''and paid'') description) \<longrightarrow>
      buy description item quantity
      = Inr \<lparr>success = False, death = None, gain = None, loss = None, cooldown = None\<rparr>)
   \<and> (\<not> (contains (str_of ''sold'') description \<and> contains (str_of ''and got paid'') description) \<longrightarrow>
      sell description item quantity
      = Inr \<lparr>success = False, death = None, gain = None, loss = None, cooldown = None\<rparr>)
   \<and> (contains (str_of ''bought'') description \<and> contains (str_of ''and paid'') description \<longrightarrow>
      ((buy description item quantity = Inl e)
       \<longleftrightarrow> (e = IndexError
            \<and> (length (findall bold_re (replace (str_of '','') [] description)) < 2
               \<or> first_number (findall bold_re (replace (str_of '','') [] description) ! 1) = []))))
   \<and> (contains (str_of ''sold'') description \<and> contains (str_of ''and got paid'') description \<longrightarrow>
      ((sell description item quantity = Inl e)
       \<longleftrightarrow> (e = IndexError
            \<and> (findall bold_re (replace (str_of '','') [] description) = []
               \<or> first_number (findall bold_re (replace (str_of '','') [] description) ! 0) = []))))"
proof (intro conjI impI)
  assume "contains (str_of ''bought'') description \<and> contains (str_of ''and paid'') description"
  then show "(buy description item quantity = Inl e)
       \<longleftrightarrow> (e = IndexError
            \<and> (length (findall bold_re (replace (str_of '','') [] description)) < 2
               \<or> first_number (findall bold_re (replace (str_of '','') [] description) ! 1) = []))"
    by (intro buy_raises) simp_all
next
  assume "contains (str_of ''sold'') description \<and> contains (str_of ''and got paid'') description"
  then show "(sell description item quantity = Inl e)
       \<longleftrightarrow> (e = IndexError
            \<and> (findall bold_re (replace (str_of '','') [] description) = []
               \<or> first_number (findall bold_re (replace (str_of '','') [] description) ! 0) = []))"
    by (intro sell_raises) simp_all
qed (simp_all add: beg_miss crime_miss search_miss common1_miss postmemes_miss buy_miss sell_miss)

lemma unrelated_signals:
  "findall coin_re (replace (str_of '','') [] unrelated_reply) = []
   \<and> findall bold_re (replace (str_of '','') [] unrelated_reply) = []
   \<and> findall qty_re (replace (str_of '','') [] unrelated_reply) = []
   \<and> findall star_re (replace (str_of '','') [] unrelated_reply) = []
   \<and> \<not> contains (str_of ''**You Received'') unrelated_reply
   \<and> \<not> contains (str_of ''bought'') unrelated_reply
   \<and> \<not> contains (str_of ''sold'') unrelated_reply"
  by code_simp

lemma sell_no_number_signals:
  "contains (str_of ''sold'') sell_no_number_reply
   \<and> contains (str_of ''and got paid'') sell_no_number_reply
   \<and> findall bold_re (replace (str_of '','') [] sell_no_number_reply) = [str_of ''nothing'']
   \<and> first_number (str_of ''nothing'') = []"
  by code_simp

theorem extractor_miss_witness:
  "findall coin_re (replace (str_of '','') [] unrelated_reply) = []
   \<and> findall bold_re (replace (str_of '','') [] unrelated_reply) = []
   \<and> findall qty_re (replace (str_of '','') [] unrelated_reply) = []
   \<and> findall star_re (replace (str_of '','') [] unrelated_reply) = []
   \<and> \<not> contains (str_of ''**You Received'') unrelated_reply
   \<and> \<not> contains (str_of ''bought'') unrelated_reply
   \<and> \<not> contains (str_of ''sold'') unrelated_reply
   \<and> beg unrelated_reply = no_result \<and> crime unrelated_reply = no_result
   \<and> search unrelated_reply = no_result \<and> common1 unrelated_reply = no_result
   \<and> postmemes unrelated_reply = Inr no_result
   \<and> buy unrelated_reply apple 1
       = Inr \<lparr>success = False, death = None, gain = None, loss = None, cooldown = None\<rparr>
   \<and> sell unrelated_reply apple 1
       = Inr \<lparr>success = False, death = None, gain = None, loss = None, cooldown = None\<rparr>
   \<and> contains (str_of ''bought'') buy_no_price_reply
   \<and> contains (str_of ''and paid'') buy_no_price_reply
   \<and> findall bold_re (replace (str_of '','') [] buy_no_price_reply) = []
   \<and> buy buy_no_price_reply apple 1 = Inl IndexError
   \<and> contains (str_of ''sold'') sell_no_number_reply
   \<and> contains (str_of ''and got paid'') sell_no_number_reply
   \<and> findall bold_re (replace (str_of '','') [] sell_no_number_reply) = [str_of ''nothing'']
   \<and> first_number (str_of ''nothing'') = []
   \<and> sell sell_no_number_reply apple 1 = Inl IndexError"
proof -
  have b: "buy buy_no_price_reply apple 1 = Inl IndexError"
    using extractor_miss [of buy_no_price_reply apple 1 IndexError]
      buy_no_price_phrases buy_no_price_spans
    by simp
  have s: "sell sell_no_number_reply apple 1 = Inl IndexError"
    using extractor_miss [of sell_no_number_reply apple 1 IndexError] sell_no_number_signals
    by simp
  from extractor_miss [of unrelated_reply apple 1 IndexError] unrelated_signals
    buy_no_price_phrases buy_no_price_spans sell_no_number_signals b s
  show ?thesis by simp
qed

section \<open>Success and gain\<close>

lemma beg_success:
  "success (beg description)
   \<longleftrightarrow> findall coin_re (replace (str_of '','') [] description) \<noteq> []
       \<or> findall bold_re (replace (str_of '','') [] description) \<noteq> []"
proof (cases "findall coin_re (replace (str_of '','') [] description) = []")
  case True
  then show ?thesis
    by (cases "findall bold_re (replace (str_of '','') [] description)")
      (simp_all add: beg_def Let_def coins_try_miss beg_item_try_def truthy_int_def item_at_def
        CommandResult_def split: sum.splits)
next
  case False
  from coins_try_hit [OF this] False show ?thesis
    by (auto simp: beg_def Let_def CommandResult_def)
qed

lemma crime_success:
  "success (crime description)
   \<longleftrightarrow> findall coin_re (replace (str_of '','') [] description) \<noteq> []
       \<or> findall bold_re (replace (str_of '','') [] description) \<noteq> []"
proof (cases "findall coin_re (replace (str_of '','') [] description) = []")
  case True
  then show ?thesis
    by (cases "findall bold_re (replace (str_of '','') [] description)")
      (simp_all add: crime_def Let_def coins_try_miss crime_item_try_def truthy_int_def
        item_at_def CommandResult_def split: sum.splits)
next
  case False
  from coins_try_hit [OF this] False show ?thesis
    by (auto simp: crime_def Let_def CommandResult_def)
qed

lemma common1_success:
  "success (common1 description)
   \<longleftrightarrow> findall star_re (replace (str_of '','') [] description) \<noteq> []"
  by (cases "findall star_re (replace (str_of '','') [] description)")
    (simp_all add: common1_def Let_def item_at_def CommandResult_def)

lemma search_success:
  "success (search description)
   \<longleftrightarrow> findall coin_re (replace (str_of '','') [] description) \<noteq> []"
proof (cases "findall coin_re (replace (str_of '','') [] description) = []")
  case True
  then show ?thesis
    by (simp add: search_def Let_def coin_amount_miss CommandResult_def split: prod.splits)
next
  case False
  from coin_amount_hit [OF this] False show ?thesis
    by (auto simp: search_def Let_def CommandResult_def split: prod.splits)
qed

lemma postmemes_success:
  "postmemes description = Inr r \<Longrightarrow>
     (success r \<longleftrightarrow> contains (str_of ''**You Received'') description)"
  by (auto simp: postmemes_def Let_def CommandResult_def split: sum.splits if_splits)

lemma buy_outcome:
  "buy description item quantity = Inr r \<Longrightarrow>
     (success r \<longleftrightarrow> contains (str_of ''bought'') description
                    \<and> contains (str_of ''and paid'') description)
     \<and> (if success r
        then gain r = Some [KInt quantity \<mapsto> VStr item]
             \<and> (\<exists>n. loss r = Some (Dict [coins_key \<mapsto> VInt n]))
        else gain r = None \<and> loss r = None)"
  by (auto simp: buy_def Let_def CommandResult_def split: sum.splits if_splits)

lemma sell_outcome:
  "sell description item quantity = Inr r \<Longrightarrow>
     (success r \<longleftrightarrow> contains (str_of ''sold'') description
                    \<and> contains (str_of ''and got paid'') description)
     \<and> (if success r
        then (\<exists>n. gain r = Some [coins_key \<mapsto> VInt n])
             \<and> loss r = Some (Dict [KInt quantity \<mapsto> VStr item])
        else gain r = None \<and> loss r = None)"
  by (auto simp: sell_def Let_def CommandResult_def split: sum.splits if_splits)

lemma beg_no_success: "\<not> success (beg description) \<Longrightarrow> gain (beg description) = Some Map.empty"
  by (auto simp: beg_def Let_def CommandResult_def)

lemma crime_no_success:
  "\<not> success (crime description) \<Longrightarrow> gain (crime description) = Some Map.empty"
  by (auto simp: crime_def Let_def CommandResult_def)

lemma common1_no_success:
  "\<not> success (common1 description) \<Longrightarrow> gain (common1 description) = Some Map.empty"
  by (auto simp: common1_def Let_def CommandResult_def split: sum.splits)

lemma postmemes_no_success:
  "postmemes description = Inr r \<Longrightarrow> \<not> success r \<Longrightarrow> gain r = Some Map.empty"
  by (auto simp: postmemes_def Let_def CommandResult_def split: sum.splits if_splits)

lemma keys_differ: "items_key \<noteq> coins_key"
  by (simp add: items_key_def coins_key_def str_of_def)

lemma beg_coins:
  assumes "findall coin_re (replace (str_of '','') [] description) = m # ms"
    and "coin_value m \<noteq> 0"
  shows "\<exists>g. gain (beg description) = Some g \<and> g coins_key = Some (VInt (coin_value m))"
  using assms(2) keys_differ
  by (auto simp: beg_def Let_def coins_try_value [OF assms(1)] CommandResult_def
      split: option.splits)

lemma crime_coins:
  assumes "findall coin_re (replace (str_of '','') [] description) = m # ms"
    and "coin_value m \<noteq> 0"
  shows "\<exists>g. gain (crime description) = Some g \<and> g coins_key = Some (VInt (coin_value m))"
  using assms(2) keys_differ
  by (auto simp: crime_def Let_def coins_try_value [OF assms(1)] CommandResult_def
      split: option.splits)

lemma search_coins:
  assumes "findall coin_re (replace (str_of '','') [] description) = m # ms"
    and "coin_value m \<noteq> 0"
  shows "\<exists>g. gain (search description) = Some g \<and> g coins_key = Some (VInt (coin_value m))"
  using assms(2) keys_differ
  by (auto simp: search_def Let_def coin_amount_value [OF assms(1)] CommandResult_def
      split: option.splits prod.splits)

lemma search_item_values:
  "search_item_try (replace (str_of '','') [] search_item_reply)
   = ((Some 2, Some (str_of ''Apple'')), None)
   \<and> coin_amount (replace (str_of '','') [] search_item_reply) = Inl IndexError
   \<and> \<not> check_cooldown search_item_reply"
  by code_simp

lemma search_zero_values:
  "search_item_try (replace (str_of '','') [] search_zero_reply) = ((None, None), Some IndexError)
   \<and> coin_amount (replace (str_of '','') [] search_zero_reply) = Inr 0
   \<and> \<not> check_cooldown search_zero_reply"
  by code_simp

lemma beg_empty_span_values:
  "coins_try (replace (str_of '','') [] beg_empty_span_reply) = None
   \<and> beg_item_try None (replace (str_of '','') [] beg_empty_span_reply)
      = (Some [], Some IndexError)
   \<and> \<not> check_cooldown beg_empty_span_reply"
  by code_simp

text \<open>
  C3, as stated, fails in both directions. \<open>search\<close> ties success to the coin amount alone:
  a reply with an item and no coins gives no success and a gain, and a reply with zero
  coins gives success, no gain, and no loss other than the default. \<open>beg\<close> gives
  success and no gain on an empty bold span. None of the three replies is a cooldown
  notice.
\<close>

theorem success_iff_gain_counterexample:
  "\<not> check_cooldown search_item_reply
   \<and> \<not> success (search search_item_reply)
   \<and> gain (search search_item_reply) = Some [items_key \<mapsto> VItems [(2, Some (str_of ''Apple''))]]
   \<and> \<not> check_cooldown search_zero_reply
   \<and> success (search search_zero_reply)
   \<and> gain (search search_zero_reply) = Some Map.empty
   \<and> loss (search search_zero_reply) = Some Default_loss
   \<and> \<not> check_cooldown beg_empty_span_reply
   \<and> success (beg beg_empty_span_reply)
   \<and> gain (beg beg_empty_span_reply) = Some Map.empty
   \<and> loss (beg beg_empty_span_reply) = Some Default_loss"
  by (simp add: search_def beg_def Let_def search_item_values search_zero_values
      beg_empty_span_values CommandResult_def)

lemma reply_signals:
  "findall coin_re (replace (str_of '','') [] beg_reply) = [coin_span_150]
   \<and> coin_value coin_span_150 = 150
   \<and> findall coin_re (replace (str_of '','') [] search_item_reply) = []
   \<and> findall coin_re (replace (str_of '','') [] search_zero_reply) \<noteq> []
   \<and> findall coin_re (replace (str_of '','') [] common1_word_reply) = []
   \<and> findall bold_re (replace (str_of '','') [] common1_word_reply) \<noteq> []
   \<and> findall star_re (replace (str_of '','') [] common1_word_reply) \<noteq> []"
  by code_simp

lemma digits_1200: "str_of ''1200'' \<noteq> []"
  by (simp add: str_of_def)

lemma buy_reply_result:
  "buy buy_reply apple 3
   = Inr \<lparr>success = True, death = None, gain = Some [KInt 3 \<mapsto> VStr apple],
          loss = Some (Dict [coins_key \<mapsto> VInt 1200]), cooldown = None\<rparr>"
  using buy_reply_phrases
  by (simp add: buy_confirmed buy_reply_spans item_at_def buy_reply_number decimal_1200
      digits_1200)

lemma sell_reply_result:
  "sell sell_reply apple 3
   = Inr \<lparr>success = True, death = None, gain = Some [coins_key \<mapsto> VInt 1200],
          loss = Some (Dict [KInt 3 \<mapsto> VStr apple]), cooldown = None\<rparr>"
  using sell_reply_phrases
  by (simp add: sell_confirmed sell_reply_spans item_at_def buy_reply_number decimal_1200
      digits_1200)

text \<open>
  C3, amended. \<open>beg\<close> and \<open>crime\<close> report success exactly when the text, its commas
  removed, has a coin amount or a bold span; \<open>common1\<close> exactly when it has a \<open>**...*\<close>
  span; \<open>search\<close> exactly when it has a coin amount, whatever item it found;
  \<open>postmemes\<close>, when it returns, exactly when the text contains \<open>**You Received\<close>; \<open>buy\<close>
  and \<open>sell\<close>, when they return, exactly when their two phrases are present, and then
  with the gain and the loss they build, and with \<open>None\<close> for both otherwise. A coin
  amount other than zero, the number of the first coin span, is in the gain of \<open>beg\<close>,
  \<open>crime\<close> and \<open>search\<close>, under \<open>"coins"\<close>. A result of \<open>beg\<close>, \<open>crime\<close>, \<open>common1\<close> or
  \<open>postmemes\<close> without success has an empty gain, so that a gain comes only with
  success there. Success with an empty gain remains: \<open>search\<close> on a reply with zero
  coins, \<open>beg\<close> on a reply with an empty bold span.
\<close>

theorem success_and_gain:
  "(success (beg description)
      \<longleftrightarrow> findall coin_re (replace (str_of '','') [] description) \<noteq> []
          \<or> findall bold_re (replace (str_of '','') [] description) \<noteq> [])
   \<and> (success (crime description)
      \<longleftrightarrow> findall coin_re (replace (str_of '','') [] description) \<noteq> []
          \<or> findall bold_re (replace (str_of '','') [] description) \<noteq> [])
   \<and> (success (common1 description)
      \<longleftrightarrow> findall star_re (replace (str_of '','') [] description) \<noteq> [])
   \<and> (success (search description)
      \<longleftrightarrow> findall coin_re (replace (str_of '','') [] description) \<noteq> [])
   \<and> (\<forall>r. postmemes description = Inr r \<longrightarrow>
        (success r \<longleftrightarrow> contains (str_of ''**You Received'') description))
   \<and> (\<forall>r. buy description item quantity = Inr r \<longrightarrow>
        (success r \<longleftrightarrow> contains (str_of ''bought'') description
                       \<and> contains (str_of ''and paid'') description)
        \<and> (if success r
           then gain r = Some [KInt quantity \<mapsto> VStr item]
                \<and> (\<exists>n. loss r = Some (Dict [coins_key \<mapsto> VInt n]))
           else gain r = None \<and> loss r = None))
   \<and> (\<forall>r. sell description item quantity = Inr r \<longrightarrow>
        (success r \<longleftrightarrow> contains (str_of ''sold'') description
                       \<and> contains (str_of ''and got paid'') description)
        \<and> (if success r
           then (\<exists>n. gain r = Some [coins_key \<mapsto> VInt n])
                \<and> loss r = Some (Dict [KInt quantity \<mapsto> VStr item])
           else gain r = None \<and> loss r = None))
   \<and> (\<forall>m ms. findall coin_re (replace (str_of '','') [] description) = m # ms \<longrightarrow>
        coin_value m \<noteq> 0 \<longrightarrow>
        (\<exists>g. gain (beg description) = Some g \<and> g coins_key = Some (VInt (coin_value m)))
        \<and> (\<exists>g. gain (crime description) = Some g \<and> g coins_key = Some (VInt (coin_value m)))
        \<and> (\<exists>g. gain (search description) = Some g \<and> g coins_key = Some (VInt (coin_value m))))
   \<and> (\<not> success (beg description) \<longrightarrow> gain (beg description) = Some Map.empty)
   \<and> (\<not> success (crime description) \<longrightarrow> gain (crime description) = Some Map.empty)
   \<and> (\<not> success (common1 description) \<longrightarrow> gain (common1 description) = Some Map.empty)
   \<and> (\<forall>r. postmemes description = Inr r \<longrightarrow> \<not> success r \<longrightarrow> gain r = Some Map.empty)
   \<and> success (search search_zero_reply) \<and> gain (search search_zero_reply) = Some Map.empty
   \<and> success (beg beg_empty_span_reply) \<and> gain (beg beg_empty_span_reply) = Some Map.empty"
proof -
  have coins: "\<forall>m ms. findall coin_re (replace (str_of '','') [] description) = m # ms \<longrightarrow>
        coin_value m \<noteq> 0 \<longrightarrow>
        (\<exists>g. gain (beg description) = Some g \<and> g coins_key = Some (VInt (coin_value m)))
        \<and> (\<exists>g. gain (crime description) = Some g \<and> g coins_key = Some (VInt (coin_value m)))
        \<and> (\<exists>g. gain (search description) = Some g \<and> g coins_key = Some (VInt (coin_value m)))"
    by (intro allI impI conjI) (erule (1) beg_coins crime_coins search_coins)+
  have z: "success (search search_zero_reply)" "gain (search search_zero_reply) = Some Map.empty"
    "success (beg beg_empty_span_reply)" "gain (beg beg_empty_span_reply) = Some Map.empty"
    by (simp_all add: search_def beg_def Let_def search_zero_values beg_empty_span_values
        CommandResult_def)
  have pm: "\<forall>r. postmemes description = Inr r \<longrightarrow>
        (success r \<longleftrightarrow> contains (str_of ''**You Received'') description)"
    using postmemes_success [of description] by blast
  have pn: "\<forall>r. postmemes description = Inr r \<longrightarrow> \<not> success r \<longrightarrow> gain r = Some Map.empty"
    using postmemes_no_success [of description] by blast
  have b: "\<forall>r. buy description item quantity = Inr r \<longrightarrow>
        (success r \<longleftrightarrow> contains (str_of ''bought'') description
                       \<and> contains (str_of ''and paid'') description)
        \<and> (if success r
           then gain r = Some [KInt quantity \<mapsto> VStr item]
                \<and> (\<exists>n. loss r = Some (Dict [coins_key \<mapsto> VInt n]))
           else gain r = None \<and> loss r = None)"
    using buy_outcome [of description item quantity] by blast
  have s: "\<forall>r. sell description item quantity = Inr r \<longrightarrow>
        (success r \<longleftrightarrow> contains (str_of ''sold'') description
                       \<and> contains (str_of ''and got paid'') description)
        \<and> (if success r
           then (\<exists>n. gain r = Some [coins_key \<mapsto> VInt n])
                \<and> loss r = Some (Dict [KInt quantity \<mapsto> VStr item])
           else gain r = None \<and> loss r = None)"
    using sell_outcome [of description item quantity] by blast
  show ?thesis
    by (intro conjI)
      (rule beg_success crime_success common1_success search_success pm b s coins pn z
        | (rule impI, erule beg_no_success crime_no_success common1_no_success))+
qed

theorem success_and_gain_witness:
  "findall coin_re (replace (str_of '','') [] beg_reply) = [coin_span_150]
   \<and> success (beg beg_reply) \<and> success (crime beg_reply) \<and> success (search beg_reply)
   \<and> coin_value coin_span_150 = 150
   \<and> (\<exists>g. gain (search beg_reply) = Some g \<and> g coins_key = Some (VInt 150))
   \<and> findall coin_re (replace (str_of '','') [] search_item_reply) = []
   \<and> \<not> success (search search_item_reply)
   \<and> findall coin_re (replace (str_of '','') [] search_zero_reply) \<noteq> []
   \<and> success (search search_zero_reply)
   \<and> findall star_re (replace (str_of '','') [] common1_word_reply) \<noteq> []
   \<and> success (common1 common1_word_reply)
   \<and> findall bold_re (replace (str_of '','') [] common1_word_reply) \<noteq> []
   \<and> success (beg common1_word_reply)
   \<and> findall star_re (replace (str_of '','') [] unrelated_reply) = []
   \<and> \<not> success (common1 unrelated_reply) \<and> gain (common1 unrelated_reply) = Some Map.empty
   \<and> \<not> success (beg unrelated_reply) \<and> gain (beg unrelated_reply) = Some Map.empty
   \<and> \<not> success (crime unrelated_reply) \<and> gain (crime unrelated_reply) = Some Map.empty
   \<and> postmemes unrelated_reply = Inr no_result \<and> \<not> success no_result
   \<and> gain no_result = Some Map.empty
   \<and> contains (str_of ''**You Received'') postmemes_unmarked_reply
   \<and> (\<exists>r. postmemes postmemes_unmarked_reply = Inr r \<and> success r)
   \<and> contains (str_of ''bought'') buy_reply \<and> contains (str_of ''and paid'') buy_reply
   \<and> (\<exists>r. buy buy_reply apple 3 = Inr r \<and> success r
          \<and> gain r = Some [KInt 3 \<mapsto> VStr apple])
   \<and> (\<exists>r. buy unrelated_reply apple 3 = Inr r \<and> \<not> success r \<and> gain r = None
          \<and> loss r = None)
   \<and> contains (str_of ''sold'') sell_reply \<and> contains (str_of ''and got paid'') sell_reply
   \<and> (\<exists>r. sell sell_reply apple 3 = Inr r \<and> success r
          \<and> loss r = Some (Dict [KInt 3 \<mapsto> VStr apple]))"
proof -
  note s = reply_signals
  note m = unrelated_signals
  note t1 = success_and_gain [of beg_reply apple 3]
  note t2 = success_and_gain [of search_item_reply apple 3]
  note t3 = success_and_gain [of search_zero_reply apple 3]
  note t4 = success_and_gain [of common1_word_reply apple 3]
  note t5 = success_and_gain [of unrelated_reply apple 3]
  note t6 = success_and_gain [of buy_reply apple 3]
  note t7 = success_and_gain [of sell_reply apple 3]
  have p: "postmemes unrelated_reply = Inr no_result"
    using m by (simp add: postmemes_miss)
  have bm: "buy unrelated_reply apple 3
            = Inr \<lparr>success = False, death = None, gain = None, loss = None, cooldown = None\<rparr>"
    using m by (simp add: buy_miss)
  have a1: "success (beg beg_reply) \<and> success (crime beg_reply) \<and> success (search beg_reply)
            \<and> (\<exists>g. gain (search beg_reply) = Some g \<and> g coins_key = Some (VInt 150))"
    using t1 s by simp
  have a2: "\<not> success (search search_item_reply)"
    using t2 s by simp
  have a3: "success (search search_zero_reply)"
    using t3 s by simp
  have a4: "success (common1 common1_word_reply) \<and> success (beg common1_word_reply)"
    using t4 s by simp
  have a5: "\<not> success (common1 unrelated_reply) \<and> gain (common1 unrelated_reply) = Some Map.empty
     \<and> \<not> success (beg unrelated_reply) \<and> gain (beg unrelated_reply) = Some Map.empty
     \<and> \<not> success (crime unrelated_reply) \<and> gain (crime unrelated_reply) = Some Map.empty
     \<and> \<not> success no_result \<and> gain no_result = Some Map.empty"
    using t5 m p by simp
  have a5c: "\<exists>r. postmemes postmemes_unmarked_reply = Inr r \<and> success r"
    using success_and_gain [of postmemes_unmarked_reply apple 3] unmarked_result unmarked_short
    by simp
  have a5b: "\<exists>r. buy unrelated_reply apple 3 = Inr r \<and> \<not> success r \<and> gain r = None
               \<and> loss r = None"
    using t5 bm m by simp
  have a6: "\<exists>r. buy buy_reply apple 3 = Inr r \<and> success r
              \<and> gain r = Some [KInt 3 \<mapsto> VStr apple]"
    using t6 buy_reply_result buy_reply_phrases by simp
  have a7: "\<exists>r. sell sell_reply apple 3 = Inr r \<and> success r
              \<and> loss r = Some (Dict [KInt 3 \<mapsto> VStr apple])"
    using t7 sell_reply_result sell_reply_phrases by simp
  from s m p a1 a2 a3 a4 a5 a5b a5c a6 a7 buy_reply_phrases sell_reply_phrases unmarked_short
  show ?thesis by simp
qed

section \<open>Emoji tags in item names\<close>


















lemma beg_gain_first:
  assumes "findall coin_re (replace (str_of '','') [] description) = []"
    and "beg_item_try None (replace (str_of '','') [] description) = (Some i, e)"
    and "i \<noteq> []"
  shows "gain (beg description) = Some [items_key \<mapsto> VItems [(1, Some i)]]"
  using assms by (simp add: beg_def Let_def coins_try_miss CommandResult_def)












text \<open>
  In \<open>beg\<close> the branch without a coin amount never removes the tag: its last statement
  reads the unbound \<open>item\<close>, and the span stays as it was found.
\<close>

lemma beg_tag_kept:
  "gain (beg beg_no_coin_tagged_reply)
   = Some [items_key \<mapsto> VItems [(1, Some (str_of ''<:note:77> Bank Note''))]]"
proof -
  have "findall coin_re (replace (str_of '','') [] beg_no_coin_tagged_reply) = []
        \<and> beg_item_try None (replace (str_of '','') [] beg_no_coin_tagged_reply)
           = (Some (str_of ''<:note:77> Bank Note''), Some UnboundLocalError)"
    by code_simp
  moreover have "str_of ''<:note:77> Bank Note'' \<noteq> []"
    by (simp add: str_of_def)
  ultimately show ?thesis by (intro beg_gain_first) simp_all
qed





end
